theory Spec2Isabelle
  imports Main "HOL-Library.Word"
begin

section \<open>Data model (package restic, package config)\<close>

text \<open>
  Go strings are byte sequences: \<^typ>\<open>string\<close> is the list of their bytes.
  A finite \<open>float64\<close> is a dyadic rational \<open>m * 2^e\<close>; no arithmetic is done on it
  by the code below, the value is only carried from the decoder to the event.
\<close>

datatype float64 = Float64 (mantissa: int) (exponent: int)

text \<open>\<open>uint64\<close>, and \<open>int\<close> on the 64-bit target (two's complement, read with \<^const>\<open>sint\<close>).\<close>

type_synonym uint64 = "64 word"

type_synonym goint = "64 word"

record BackupProgress =
  MessageType :: string
  SecondsElapsed :: float64
  SecondsRemaining :: float64
  PercentDone :: float64
  TotalFiles :: uint64
  FilesDone :: uint64
  TotalBytes :: uint64
  BytesDone :: uint64
  ErrorCount :: goint
  CurrentFiles :: "string list"
  FilesNew :: uint64
  FilesChanged :: uint64
  FilesUnmodified :: uint64
  DirsNew :: uint64
  DirsChanged :: uint64
  DirsUnmodified :: uint64
  DataBlobs :: goint
  TreeBlobs :: goint
  DataAdded :: uint64
  TotalFilesProc :: uint64
  TotalBytesProc :: uint64
  TotalDuration :: float64
  SnapshotID :: string

record RestoreProgress =
  MessageType :: string
  SecondsElapsed :: float64
  SecondsRemaining :: float64
  PercentDone :: float64
  TotalFiles :: uint64
  FilesRestored :: uint64
  FilesSkipped :: uint64
  TotalBytes :: uint64
  BytesRestored :: uint64
  BytesSkipped :: uint64

record BackupJob =
  RepoID :: string
  SourcePaths :: "string list"
  Excludes :: "string list"
  Tags :: "string list"

record FileNode =
  StructType :: string
  Name :: string
  Type :: string
  Path :: string
  Size :: uint64
  MTime :: string

record Repository =
  ID :: string
  Name :: string
  URI :: string
  Password :: string
  SourceFolders :: "string list"
  Excludes :: "string list"

section \<open>The Go standard library, as far as the code calls it\<close>

text \<open>
  \<open>encoding/json\<close>: \<open>json.Unmarshal\<close> fails with a \<open>*SyntaxError\<close> when the text is
  not valid JSON and with an \<open>*UnmarshalTypeError\<close> when the text is valid JSON that
  does not fit the target struct (an array, a string, a number or a boolean at top level,
  a field of the wrong JSON type, a number out of the field's range).
\<close>

datatype json_error = SyntaxError | UnmarshalTypeError

text \<open>
  The library functions whose result depends on Unicode tables, on the path syntax of
  the platform or on the JSON decoder are parameters of the model. The parts of
  \<open>strings.ToLower\<close>, \<open>strings.ToUpper\<close> and \<open>strings.TrimSpace\<close> that work on
  ASCII bytes are written out below; \<open>MapToLower\<close>, \<open>MapToUpper\<close> and
  \<open>TrimFuncIsSpace\<close> are what these functions fall back to on text that has a byte
  from 0x80 on (\<open>strings.Map(unicode.ToLower, s)\<close>, \<open>strings.Map(unicode.ToUpper, s)\<close>,
  \<open>strings.TrimFunc(s, unicode.IsSpace)\<close>).
\<close>

record golib =
  MapToLower :: "string \<Rightarrow> string"
  MapToUpper :: "string \<Rightarrow> string"
  TrimFuncIsSpace :: "string \<Rightarrow> string"
  Join :: "string \<Rightarrow> string \<Rightarrow> string"
  Dir :: "string \<Rightarrow> string"
  UnmarshalBackupProgress :: "string \<Rightarrow> json_error + BackupProgress"
  UnmarshalRestoreProgress :: "string \<Rightarrow> json_error + RestoreProgress"
  UnmarshalFileNode :: "string \<Rightarrow> json_error + FileNode"

definition isASCII :: "char \<Rightarrow> bool" where
  "isASCII c = ((of_char c :: nat) < 128)"

definition asciiLower :: "char \<Rightarrow> char" where
  "asciiLower c =
     (let n = (of_char c :: nat) in if 65 \<le> n \<and> n \<le> 90 then char_of (n + 32) else c)"

definition asciiUpper :: "char \<Rightarrow> char" where
  "asciiUpper c =
     (let n = (of_char c :: nat) in if 97 \<le> n \<and> n \<le> 122 then char_of (n - 32) else c)"

text \<open>The six bytes of \<open>asciiSpace\<close>: tab, line feed, vertical tab, form feed, carriage
  return and space.\<close>

definition asciiSpace :: "char \<Rightarrow> bool" where
  "asciiSpace c = ((of_char c :: nat) \<in> {9, 10, 11, 12, 13, 32})"

definition ToLower :: "golib \<Rightarrow> string \<Rightarrow> string" where
  "ToLower L s = (if list_all isASCII s then map asciiLower s else MapToLower L s)"

definition ToUpper :: "golib \<Rightarrow> string \<Rightarrow> string" where
  "ToUpper L s = (if list_all isASCII s then map asciiUpper s else MapToUpper L s)"

text \<open>
  \<open>strings.TrimSpace\<close>: skip ASCII space from the left; a byte from 0x80 on hands the
  rest to \<open>TrimFunc\<close>; then the same from the right.
\<close>

definition TrimSpace :: "golib \<Rightarrow> string \<Rightarrow> string" where
  "TrimSpace L s =
     (let t = dropWhile asciiSpace s in
      if t \<noteq> [] \<and> \<not> isASCII (hd t) then TrimFuncIsSpace L t
      else let r = dropWhile asciiSpace (rev t) in
           if r \<noteq> [] \<and> \<not> isASCII (hd r) then TrimFuncIsSpace L (rev r) else rev r)"

text \<open>\<open>strings.Contains\<close> compares bytes.\<close>

fun Contains :: "string \<Rightarrow> string \<Rightarrow> bool" where
  "Contains [] sub = (sub = [])"
| "Contains (c # cs) sub = (take (length sub) (c # cs) = sub \<or> Contains cs sub)"

text \<open>\<open>strings.TrimPrefix(s, "/")\<close>.\<close>

definition TrimPrefixSlash :: "string \<Rightarrow> string" where
  "TrimPrefixSlash s = (case s of [] \<Rightarrow> [] | c # cs \<Rightarrow> if c = CHR ''/'' then cs else s)"

text \<open>\<open>filepath.Join\<close> and \<open>filepath.Dir\<close> on Windows, for a clean path and a file name:
  used to run the model on examples.\<close>

definition winJoin :: "string \<Rightarrow> string \<Rightarrow> string" where
  "winJoin a b = (if a \<noteq> [] \<and> last a = CHR 0x5C then a @ b else a @ [CHR 0x5C] @ b)"

definition winDir :: "string \<Rightarrow> string" where
  "winDir p =
     (let d = rev (dropWhile (\<lambda>c. c \<noteq> CHR 0x5C) (rev p)) in
      if length d \<le> 3 then d else butlast d)"

section \<open>Process runner (internal/restic/runner.go)\<close>

subsection \<open>friendlyError\<close>

definition friendlyError :: "golib \<Rightarrow> string \<Rightarrow> string" where
  \<open>friendlyError L raw =
     (let lower = ToLower L raw in
      if Contains lower ''wrong password'' then ''Wrong password for this repository.''
      else if Contains lower ''no such file'' \<or> Contains lower ''repository does not exist'' then
        ''Repository not initialized. Go to Repositories '' @ [CHR 0xE2, CHR 0x86, CHR 0x92]
          @ '' Edit '' @ [CHR 0xE2, CHR 0x86, CHR 0x92]
          @ '' click "Initialize repository" first.''
      else if Contains lower ''connection refused'' \<or> Contains lower ''network''
              \<or> Contains lower ''dial'' then
        ''Network error. Is the server reachable?''
      else if Contains lower ''permission denied'' then
        ''Access denied. Please check permissions.''
      else if Contains lower ''already initialized'' then ''Repository already exists.''
      else if Contains lower ''is already locked'' then
        ''Repository is locked. Please wait or unlock it manually.''
      else if raw = [] then ''Unknown error''
      else raw)\<close>

text \<open>
  The translation table of the specification (4.2.1): rows of substrings and the
  message they map to, looked up in order on the lower-cased text. This definition
  follows the specification's words; \<open>friendlyError\<close> above follows the code.
\<close>

definition translation_table :: "(string list \<times> string) list" where
  \<open>translation_table =
     [([''wrong password''], ''Wrong password for this repository.''),
      ([''no such file'', ''repository does not exist''],
        ''Repository not initialized. Go to Repositories '' @ [CHR 0xE2, CHR 0x86, CHR 0x92]
          @ '' Edit '' @ [CHR 0xE2, CHR 0x86, CHR 0x92]
          @ '' click "Initialize repository" first.''),
      ([''connection refused'', ''network'', ''dial''],
        ''Network error. Is the server reachable?''),
      ([''permission denied''], ''Access denied. Please check permissions.''),
      ([''already initialized''], ''Repository already exists.''),
      ([''is already locked''],
        ''Repository is locked. Please wait or unlock it manually.'')]\<close>

definition row_matches :: "string \<Rightarrow> string list \<times> string \<Rightarrow> bool" where
  "row_matches lower row = list_ex (Contains lower) (fst row)"

definition translate :: "golib \<Rightarrow> string \<Rightarrow> string" where
  "translate L s =
     (case find (row_matches (ToLower L s)) translation_table of
        Some row \<Rightarrow> snd row
      | None \<Rightarrow> if s = [] then ''Unknown error'' else s)"

subsection \<open>Commands, effects and the operating system\<close>

text \<open>
  An \<open>exec.Cmd\<close> as \<open>exec.Command(name, args...)\<close> builds it: the binary, the
  arguments after the binary's name, and the environment of the child.
\<close>

record Cmd =
  cmd_name :: string
  cmd_args :: "string list"
  cmd_env :: "string list"

text \<open>How a subprocess run by \<open>CombinedOutput\<close> ended: it could not be started, or it
  exited with a status.\<close>

datatype exit_status = NotStarted | ExitCode nat

text \<open>
  What a streaming subprocess does, as \<open>RunWithProgress\<close> sees it: the errors of
  \<open>StdoutPipe\<close>/\<open>StderrPipe\<close> and of \<open>Start\<close>, the lines the two scanners
  deliver, the number of \<open>Cancel()\<close> calls that arrive while the call is in flight,
  the exit status, and whether \<open>Wait\<close> reports an error of the goroutine that watches
  the context. From Go 1.20 on it does so, even for exit status 0, when the kill went
  through or failed; it reports none when the process had been waited for before the
  kill was attempted, and never on older versions. Without it \<open>Wait\<close> fails exactly
  when the exit status is not 0.
\<close>

record proc_run =
  pipe_error :: "string option"
  start_error :: "string option"
  stdout_lines :: "string list"
  stderr_lines :: "string list"
  cancel_calls :: nat
  exit_code :: nat
  watch_error :: bool

record FileInfo =
  IsDir :: bool
  Mode :: "32 word"

text \<open>An error of \<open>os.ReadDir\<close>: its message, and whether \<open>os.IsNotExist\<close> holds.\<close>

datatype read_error = NotExist string | OtherError string

text \<open>
  The calls the code makes on the file system, each with the result it got. An error is
  the text of \<open>err.Error()\<close>; \<open>None\<close> is \<open>nil\<close>.
\<close>

datatype fs_effect =
    MkdirAll string "32 word" "string option"
  | ReadDir string "string list" "read_error option"
  | Rename string string "string option"
  | Stat string "string + FileInfo"
  | Open string "string option"
  | Create string "string option"
  | IoCopy string string "string option"
  | RemoveAll string

datatype payload =
    NoData
  | Message string
  | BackupData BackupProgress
  | RestoreData RestoreProgress

datatype effect =
    FS fs_effect
  | Start Cmd "string option"
  | EventsEmit string payload

text \<open>
  The operating system answers each call; its answer may depend on everything the
  operation did before (the list of effects so far).
\<close>

record os =
  Environ :: "string list"
  NewUUID :: string
  os_MkdirAll :: "effect list \<Rightarrow> string \<Rightarrow> 32 word \<Rightarrow> string option"
  os_ReadDir :: "effect list \<Rightarrow> string \<Rightarrow> string list \<times> read_error option"
  os_Rename :: "effect list \<Rightarrow> string \<Rightarrow> string \<Rightarrow> string option"
  os_Stat :: "effect list \<Rightarrow> string \<Rightarrow> string + FileInfo"
  os_Open :: "effect list \<Rightarrow> string \<Rightarrow> string option"
  os_Create :: "effect list \<Rightarrow> string \<Rightarrow> string option"
  io_Copy :: "effect list \<Rightarrow> string \<Rightarrow> string \<Rightarrow> string option"
  CombinedOutput :: "Cmd \<Rightarrow> string \<times> exit_status"
  run_proc :: "effect list \<Rightarrow> Cmd \<Rightarrow> proc_run"

subsection \<open>Runner\<close>

text \<open>
  \<open>cancelFunc\<close> is \<open>True\<close> while a cancel function is registered; \<open>ctxDone\<close> is the
  state of the context that function cancels (\<open>ctx.Err() != nil\<close>).
\<close>

record Runner =
  resticPath :: string
  cancelFunc :: bool
  ctxDone :: bool

definition Run_cmd :: "os \<Rightarrow> Runner \<Rightarrow> string \<Rightarrow> string \<Rightarrow> string list \<Rightarrow> Cmd" where
  "Run_cmd os r repoURI password args =
     \<lparr>cmd_name = resticPath r, cmd_args = args,
      cmd_env = (if repoURI \<noteq> [] then
                   Environ os @ [''RESTIC_REPOSITORY='' @ repoURI, ''RESTIC_PASSWORD='' @ password]
                 else Environ os)\<rparr>"

definition Run ::
  "golib \<Rightarrow> os \<Rightarrow> Runner \<Rightarrow> string \<Rightarrow> string \<Rightarrow> string list \<Rightarrow> string \<times> string option" where
  "Run L os r repoURI password args =
     (case CombinedOutput os (Run_cmd os r repoURI password args) of
        (out, status) \<Rightarrow>
          if status \<noteq> ExitCode 0 then ([], Some (friendlyError L (TrimSpace L out)))
          else (out, None))"

definition Cancel :: "Runner \<Rightarrow> Runner" where
  "Cancel r = (if cancelFunc r then r\<lparr>ctxDone := True\<rparr> else r)"

definition RunWithProgress_cmd :: "os \<Rightarrow> Runner \<Rightarrow> string \<Rightarrow> string \<Rightarrow> string list \<Rightarrow> Cmd" where
  "RunWithProgress_cmd os r repoURI password args =
     \<lparr>cmd_name = resticPath r, cmd_args = args,
      cmd_env = Environ os @ [''RESTIC_REPOSITORY='' @ repoURI, ''RESTIC_PASSWORD='' @ password]\<rparr>"

text \<open>The text gathered from standard error: each line with a line feed after it.\<close>

definition stderrBuf :: "string list \<Rightarrow> string" where
  "stderrBuf ls = concat (map (\<lambda>l. l @ [CHR 0x0A]) ls)"

text \<open>
  \<open>RunWithProgress\<close> returns the runner it leaves behind, the effects of the call (the
  start of the process, then what \<open>onLine\<close> did for each line, in order) and the error.
\<close>

definition RunWithProgress ::
  "golib \<Rightarrow> os \<Rightarrow> effect list \<Rightarrow> Runner \<Rightarrow> string \<Rightarrow> string \<Rightarrow> string list
     \<Rightarrow> (string \<Rightarrow> effect list) \<Rightarrow> Runner \<times> effect list \<times> string option" where
  "RunWithProgress L os h r repoURI password args onLine =
     (let r1 = r\<lparr>cancelFunc := True, ctxDone := False\<rparr>;
          cmd = RunWithProgress_cmd os r repoURI password args;
          p = run_proc os h cmd;
          r2 = (Cancel ^^ cancel_calls p) r1;
          r3 = r2\<lparr>cancelFunc := False\<rparr>
      in case pipe_error p of
           Some e \<Rightarrow> (r3, [], Some e)
         | None \<Rightarrow>
            (case start_error p of
               Some e \<Rightarrow> (r3, [Start cmd (Some e)], Some e)
             | None \<Rightarrow>
                (r3, Start cmd None # concat (map onLine (stdout_lines p)),
                 if exit_code p \<noteq> 0 \<or> (ctxDone r2 \<and> watch_error p) then
                   (if ctxDone r2 then Some ''cancelled''
                    else Some (friendlyError L (TrimSpace L (stderrBuf (stderr_lines p)))))
                 else None)))"

section \<open>Application (app.go)\<close>

record App =
  config :: "Repository list"
  runner :: "Runner option"

definition GetRepository :: "Repository list \<Rightarrow> string \<Rightarrow> Repository option" where
  "GetRepository repos ident = find (\<lambda>r. ID r = ident) repos"

subsection \<open>Progress callbacks\<close>

definition backupLine :: "golib \<Rightarrow> string \<Rightarrow> effect list" where
  "backupLine L line =
     (case UnmarshalBackupProgress L line of
        Inr progress \<Rightarrow> [EventsEmit ''backup:progress'' (BackupData progress)]
      | Inl jsonErr \<Rightarrow> [])"

definition restoreLine :: "golib \<Rightarrow> string \<Rightarrow> effect list" where
  "restoreLine L line =
     (case UnmarshalRestoreProgress L line of
        Inr progress \<Rightarrow> [EventsEmit ''restore:progress'' (RestoreData progress)]
      | Inl jsonErr \<Rightarrow> [])"

subsection \<open>Backup and full restore\<close>

text \<open>
  An operation returns its error (\<open>None\<close> is \<open>nil\<close>) and the effects of the goroutine it
  started, in order; the goroutine of an operation that fails at once has no effects.
\<close>

definition backup_args :: "BackupJob \<Rightarrow> string list" where
  "backup_args job =
     [''backup'', ''--json'']
       @ concat (map (\<lambda>ex. [''--exclude'', ex]) (BackupJob.Excludes job))
       @ concat (map (\<lambda>tag. [''--tag'', tag]) (Tags job))
       @ SourcePaths job"

definition StartBackup :: "golib \<Rightarrow> os \<Rightarrow> App \<Rightarrow> BackupJob \<Rightarrow> string option \<times> effect list" where
  "StartBackup L os a job =
     (case runner a of
        None \<Rightarrow> (Some ''restic not found'', [])
      | Some r \<Rightarrow>
         (case GetRepository (config a) (RepoID job) of
            None \<Rightarrow> (Some ''repository not found'', [])
          | Some repo \<Rightarrow>
             (case RunWithProgress L os [] r (URI repo) (Password repo) (backup_args job)
                     (backupLine L) of
                (r', t, Some err) \<Rightarrow> (None, t @ [EventsEmit ''backup:error'' (Message err)])
              | (r', t, None) \<Rightarrow> (None, t @ [EventsEmit ''backup:complete'' NoData]))))"

definition restore_args :: "string \<Rightarrow> string \<Rightarrow> string list \<Rightarrow> string list" where
  "restore_args snapshotID target includePaths =
     [''restore'', snapshotID, ''--target'', target, ''--json'']
       @ concat (map (\<lambda>p. [''--include'', p]) includePaths)"

definition StartRestore ::
  "golib \<Rightarrow> os \<Rightarrow> App \<Rightarrow> string \<Rightarrow> string \<Rightarrow> string \<Rightarrow> string option \<times> effect list" where
  "StartRestore L os a repoID snapshotID targetPath =
     (case runner a of
        None \<Rightarrow> (Some ''restic not found'', [])
      | Some r \<Rightarrow>
         (case GetRepository (config a) repoID of
            None \<Rightarrow> (Some ''repository not found'', [])
          | Some repo \<Rightarrow>
             (case RunWithProgress L os [] r (URI repo) (Password repo)
                     (restore_args snapshotID targetPath []) (restoreLine L) of
                (r', t, Some err) \<Rightarrow> (None, t @ [EventsEmit ''restore:error'' (Message err)])
              | (r', t, None) \<Rightarrow> (None, t @ [EventsEmit ''restore:complete'' NoData]))))"

subsection \<open>Listing a snapshot\<close>

text \<open>\<open>splitLines\<close>: \<open>cur\<close> is the text since the last line feed (\<open>s[start:i]\<close>).\<close>

fun splitLinesFrom :: "string \<Rightarrow> string \<Rightarrow> string list" where
  "splitLinesFrom cur [] = (if cur = [] then [] else [cur])"
| "splitLinesFrom cur (c # cs) =
     (if c = CHR 0x0A then cur # splitLinesFrom [] cs else splitLinesFrom (cur @ [c]) cs)"

definition splitLines :: "string \<Rightarrow> string list" where
  "splitLines s = splitLinesFrom [] s"

text \<open>The loop of \<open>ListSnapshotContents\<close> over the lines.\<close>

fun collectNodes :: "golib \<Rightarrow> string list \<Rightarrow> FileNode list" where
  "collectNodes L [] = []"
| "collectNodes L (line # rest) =
     (if line = [] then collectNodes L rest
      else case UnmarshalFileNode L line of
             Inl err \<Rightarrow> collectNodes L rest
           | Inr node \<Rightarrow>
               if StructType node = ''node'' then node # collectNodes L rest
               else collectNodes L rest)"

definition ListSnapshotContents ::
  "golib \<Rightarrow> os \<Rightarrow> App \<Rightarrow> string \<Rightarrow> string \<Rightarrow> string + FileNode list" where
  "ListSnapshotContents L os a repoID snapshotID =
     (case runner a of
        None \<Rightarrow> Inl ''restic not found''
      | Some r \<Rightarrow>
         (case GetRepository (config a) repoID of
            None \<Rightarrow> Inl ''repository not found''
          | Some repo \<Rightarrow>
             (case Run L os r (URI repo) (Password repo) [''ls'', ''--json'', snapshotID] of
                (out, Some err) \<Rightarrow> Inl err
              | (out, None) \<Rightarrow> Inr (collectNodes L (splitLines out)))))"

subsection \<open>Selective restore\<close>

text \<open>
  \<open>extractDriveLetter\<close>: backslashes become slashes, one leading slash is dropped,
  \<open>parts[0]\<close> of \<open>strings.SplitN(norm, "/", 2)\<close> is the text before the first slash.
\<close>

definition leadingSegment :: "string \<Rightarrow> string" where
  "leadingSegment path =
     (let norm = map (\<lambda>c. if c = CHR 0x5C then CHR ''/'' else c) path;
          norm = TrimPrefixSlash norm
      in takeWhile (\<lambda>c. c \<noteq> CHR ''/'') norm)"

definition extractDriveLetter :: "golib \<Rightarrow> string \<Rightarrow> string" where
  "extractDriveLetter L path =
     (let parts0 = leadingSegment path
      in if length parts0 = 1 then ToUpper L parts0 else [])"

text \<open>
  The loops of \<open>moveContents\<close> and \<open>copyPath\<close> run a body for each directory entry
  and return at the first error. A body, and the loop, yield the file-system effects
  they added and the error, or \<open>None\<close> when they do not finish.
\<close>

fun forEach ::
  "('a \<Rightarrow> effect list \<Rightarrow> (fs_effect list \<times> string option) option) \<Rightarrow> effect list \<Rightarrow> 'a list
     \<Rightarrow> (fs_effect list \<times> string option) option" where
  "forEach body h [] = Some ([], None)"
| "forEach body h (x # xs) =
     (case body x h of
        None \<Rightarrow> None
      | Some (t, Some err) \<Rightarrow> Some (t, Some err)
      | Some (t, None) \<Rightarrow>
         (case forEach body (h @ map FS t) xs of
            None \<Rightarrow> None
          | Some (t', r) \<Rightarrow> Some (t @ t', r)))"

text \<open>The file branch of \<open>copyPath\<close>: open, create, copy.\<close>

definition copyFile :: "os \<Rightarrow> effect list \<Rightarrow> string \<Rightarrow> string \<Rightarrow> fs_effect list \<times> string option" where
  "copyFile os h src dst =
     (case os_Open os h src of
        Some err \<Rightarrow> ([Open src (Some err)], Some err)
      | None \<Rightarrow>
         (case os_Create os (h @ [FS (Open src None)]) dst of
            Some err \<Rightarrow> ([Open src None, Create dst (Some err)], Some err)
          | None \<Rightarrow>
             (let t = [Open src None, Create dst None];
                  r = io_Copy os (h @ map FS t) dst src
              in (t @ [IoCopy dst src r], r))))"

text \<open>
  \<open>copyPath\<close> recurses into directories; the first argument bounds the depth of the
  recursion, and \<open>None\<close> says that the bound was reached. The error of \<open>os.ReadDir\<close> is
  dropped there, the entries it returned are used.
\<close>

fun copyPath ::
  "nat \<Rightarrow> golib \<Rightarrow> os \<Rightarrow> effect list \<Rightarrow> string \<Rightarrow> string
     \<Rightarrow> (fs_effect list \<times> string option) option" where
  "copyPath 0 L os h src dst = None"
| "copyPath (Suc n) L os h src dst =
     (case os_Stat os h src of
        Inl err \<Rightarrow> Some ([Stat src (Inl err)], Some err)
      | Inr info \<Rightarrow>
         (let t1 = [Stat src (Inr info)] in
          if IsDir info then
            (case os_MkdirAll os (h @ map FS t1) dst (Mode info) of
               Some err \<Rightarrow> Some (t1 @ [MkdirAll dst (Mode info) (Some err)], Some err)
             | None \<Rightarrow>
                (let t2 = t1 @ [MkdirAll dst (Mode info) None];
                     rd = os_ReadDir os (h @ map FS t2) src;
                     t3 = t2 @ [ReadDir src (fst rd) (snd rd)]
                 in case forEach (\<lambda>e k. copyPath n L os k (Join L src e) (Join L dst e))
                           (h @ map FS t3) (fst rd) of
                      None \<Rightarrow> None
                    | Some (t, r) \<Rightarrow> Some (t3 @ t, r)))
          else (case copyFile os (h @ map FS t1) src dst of
                  (t, r) \<Rightarrow> Some (t1 @ t, r))))"

text \<open>The body of the loop of \<open>moveContents\<close>. Permission 0755 is 493.\<close>

definition moveEntry ::
  "nat \<Rightarrow> golib \<Rightarrow> os \<Rightarrow> string \<Rightarrow> string \<Rightarrow> string \<Rightarrow> effect list
     \<Rightarrow> (fs_effect list \<times> string option) option" where
  "moveEntry fuel L os src dst name h =
     (let srcPath = Join L src name;
          dstPath = Join L dst name
      in case os_MkdirAll os h (Dir L dstPath) 493 of
           Some err \<Rightarrow> Some ([MkdirAll (Dir L dstPath) 493 (Some err)], Some err)
         | None \<Rightarrow>
            (let t1 = [MkdirAll (Dir L dstPath) 493 None] in
             case os_Rename os (h @ map FS t1) srcPath dstPath of
               None \<Rightarrow> Some (t1 @ [Rename srcPath dstPath None], None)
             | Some renameErr \<Rightarrow>
                (let t2 = t1 @ [Rename srcPath dstPath (Some renameErr)] in
                 case copyPath fuel L os (h @ map FS t2) srcPath dstPath of
                   None \<Rightarrow> None
                 | Some (t, Some copyErr) \<Rightarrow> Some (t2 @ t, Some copyErr)
                 | Some (t, None) \<Rightarrow> Some (t2 @ t @ [RemoveAll srcPath], None))))"

definition moveContents ::
  "nat \<Rightarrow> golib \<Rightarrow> os \<Rightarrow> effect list \<Rightarrow> string \<Rightarrow> string
     \<Rightarrow> (fs_effect list \<times> string option) option" where
  "moveContents fuel L os h src dst =
     (let rd = os_ReadDir os h src;
          t0 = [ReadDir src (fst rd) (snd rd)]
      in case snd rd of
           Some (NotExist m) \<Rightarrow> Some (t0, None)
         | Some (OtherError m) \<Rightarrow> Some (t0, Some m)
         | None \<Rightarrow>
            (case forEach (moveEntry fuel L os src dst) (h @ map FS t0) (fst rd) of
               None \<Rightarrow> None
             | Some (t, r) \<Rightarrow> Some (t0 @ t, r)))"

definition tempDirName :: "string \<Rightarrow> string \<Rightarrow> string" where
  "tempDirName driveLetter uuid =
     driveLetter @ '':'' @ [CHR 0x5C] @ ''restic-gui-temp-'' @ take 8 uuid"

text \<open>
  The goroutine of the restore to the original location. \<open>defer os.RemoveAll(tempDir)\<close> is
  registered once the directory exists, so it runs last on every return after that.
\<close>

definition restoreToOriginal ::
  "nat \<Rightarrow> golib \<Rightarrow> os \<Rightarrow> Runner \<Rightarrow> Repository \<Rightarrow> string \<Rightarrow> string \<Rightarrow> string list
     \<Rightarrow> effect list option" where
  "restoreToOriginal fuel L os r repo snapshotID first includePaths =
     (let driveLetter = extractDriveLetter L first in
      if driveLetter = [] then
        Some [EventsEmit ''restore:error'' (Message ''Could not determine drive letter from path'')]
      else
        (let tempDir = tempDirName driveLetter (NewUUID os) in
         case os_MkdirAll os [] tempDir 493 of
           Some err \<Rightarrow>
             Some [FS (MkdirAll tempDir 493 (Some err)),
                   EventsEmit ''restore:error''
                     (Message (''Failed to create temp directory: '' @ err))]
         | None \<Rightarrow>
            (let h1 = [FS (MkdirAll tempDir 493 None)] in
             case RunWithProgress L os h1 r (URI repo) (Password repo)
                    (restore_args snapshotID tempDir includePaths) (restoreLine L) of
               (r', t, Some err) \<Rightarrow>
                 Some (h1 @ t @ [EventsEmit ''restore:error'' (Message err),
                                 FS (RemoveAll tempDir)])
             | (r', t, None) \<Rightarrow>
                (let srcBase = Join L tempDir driveLetter;
                     dstBase = driveLetter @ '':'' @ [CHR 0x5C]
                 in case moveContents fuel L os (h1 @ t) srcBase dstBase of
                      None \<Rightarrow> None
                    | Some (m, Some err) \<Rightarrow>
                        Some (h1 @ t @ map FS m
                              @ [EventsEmit ''restore:error'' (Message (''Move failed: '' @ err)),
                                 FS (RemoveAll tempDir)])
                    | Some (m, None) \<Rightarrow>
                        Some (h1 @ t @ map FS m
                              @ [EventsEmit ''restore:complete'' NoData,
                                 FS (RemoveAll tempDir)])))))"

text \<open>
  \<open>RestoreSelected\<close> returns its error and the effects of its goroutine; the effects are
  \<open>None\<close> when the goroutine does not finish within the depth bound of \<open>copyPath\<close>.
\<close>

definition RestoreSelected ::
  "nat \<Rightarrow> golib \<Rightarrow> os \<Rightarrow> App \<Rightarrow> string \<Rightarrow> string \<Rightarrow> string list \<Rightarrow> string \<Rightarrow> bool
     \<Rightarrow> string option \<times> effect list option" where
  "RestoreSelected fuel L os a repoID snapshotID includePaths targetPath toOriginal =
     (case runner a of
        None \<Rightarrow> (Some ''restic not found'', Some [])
      | Some r \<Rightarrow>
         (case GetRepository (config a) repoID of
            None \<Rightarrow> (Some ''repository not found'', Some [])
          | Some repo \<Rightarrow>
             (case includePaths of
                [] \<Rightarrow> (Some ''no paths selected'', Some [])
              | first # others \<Rightarrow>
                 if toOriginal then
                   (None, restoreToOriginal fuel L os r repo snapshotID first includePaths)
                 else
                   (case RunWithProgress L os [] r (URI repo) (Password repo)
                           (restore_args snapshotID targetPath includePaths) (restoreLine L) of
                      (r', t, Some err) \<Rightarrow>
                        (None, Some (t @ [EventsEmit ''restore:error'' (Message err)]))
                    | (r', t, None) \<Rightarrow>
                        (None, Some (t @ [EventsEmit ''restore:complete'' NoData]))))))"

subsection \<open>The caller of \<open>RestoreSelected\<close> (frontend, SelectiveRestore.tsx)\<close>

datatype restore_mode = Original | Custom

datatype ui_action =
    Toast string
  | CallRestoreSelected string string "string list" string bool

text \<open>\<open>startRestore\<close>: \<open>checked\<close> is the set of ticked paths in insertion order.\<close>

definition startRestore ::
  "string \<Rightarrow> string \<Rightarrow> string list \<Rightarrow> string \<Rightarrow> restore_mode \<Rightarrow> ui_action" where
  "startRestore selectedRepo selectedSnap checked targetPath restoreMode =
     (if checked = [] then Toast ''No entries selected''
      else if restoreMode = Custom \<and> targetPath = [] then Toast ''Please select a target folder''
      else CallRestoreSelected selectedRepo selectedSnap checked targetPath
             (restoreMode = Original))"

section \<open>Reading the effects\<close>

text \<open>The subprocesses an operation started, the events it emitted and the directories it
  asked to create, in order.\<close>

fun started :: "effect list \<Rightarrow> Cmd list" where
  "started [] = []"
| "started (Start cmd res # es) = cmd # started es"
| "started (e # es) = started es"

fun emitted :: "effect list \<Rightarrow> (string \<times> payload) list" where
  "emitted [] = []"
| "emitted (EventsEmit name data # es) = (name, data) # emitted es"
| "emitted (e # es) = emitted es"

fun created :: "effect list \<Rightarrow> string list" where
  "created [] = []"
| "created (FS (MkdirAll path perm res) # es) = path # created es"
| "created (e # es) = created es"

text \<open>
  The records a decoder delivers for a sequence of lines: each line on its own, in the
  order of the lines, a line that does not decode contributing nothing. This follows the
  specification's words (4.3).
\<close>

fun decoded :: "(string \<Rightarrow> json_error + 'r) \<Rightarrow> string list \<Rightarrow> 'r list" where
  "decoded unmarshal [] = []"
| "decoded unmarshal (l # ls) =
     (case unmarshal l of
        Inr rec \<Rightarrow> rec # decoded unmarshal ls
      | Inl err \<Rightarrow> decoded unmarshal ls)"

text \<open>A line of the listing is tagged as a node when it is not empty and decodes to a
  record whose \<open>struct_type\<close> is \<open>node\<close>; \<open>nodes_of\<close> is the specification's reading of
  the listing (section 6): one entry per node line, in order.\<close>

definition node_of :: "golib \<Rightarrow> string \<Rightarrow> FileNode option" where
  "node_of L line =
     (if line = [] then None
      else case UnmarshalFileNode L line of
             Inr node \<Rightarrow> if StructType node = ''node'' then Some node else None
           | Inl err \<Rightarrow> None)"

definition nodes_of :: "golib \<Rightarrow> string list \<Rightarrow> FileNode list" where
  "nodes_of L ls = List.map_filter (node_of L) ls"

section \<open>Notions of the specification\<close>

definition known_substrings :: "string list" where
  "known_substrings = concat (map fst translation_table)"

definition fixed_messages :: "string list" where
  "fixed_messages = map snd translation_table"

text \<open>
  The fixed messages that match the table themselves: a substring of the table occurs in
  them once their ASCII letters are lower-cased.
\<close>

definition own_translation :: "string list" where
  "own_translation =
     filter (\<lambda>m. list_ex (Contains (map asciiLower m)) known_substrings) fixed_messages"

text \<open>
  What the proofs need from the library's Unicode fall-backs for a substring \<open>p\<close>, on
  text that has a byte from 0x80 on: \<open>TrimFunc\<close> does not remove an occurrence of \<open>p\<close>,
  and lower-casing and trimming can be done in either order. Go's functions do both: they
  trim runes that are white space, no rune changes between white space and other text
  when it is lower-cased, and the substrings of the table begin and end with a letter.
\<close>

definition keeps :: "golib \<Rightarrow> string \<Rightarrow> bool" where
  "keeps L p =
     ((\<forall>s. Contains s p \<longrightarrow> Contains (TrimFuncIsSpace L s) p)
      \<and> (\<forall>s. ToLower L (TrimSpace L s) = TrimSpace L (ToLower L s)))"


text \<open>
  The file-system effects of a recursive copy of \<open>src\<close> to \<open>dst\<close> that succeeded, as the
  specification describes it: a file is opened, created at the destination and copied; a
  directory is created at the destination and each entry of its listing is copied below
  it, in order.
\<close>

inductive copied :: "golib \<Rightarrow> string \<Rightarrow> string \<Rightarrow> fs_effect list \<Rightarrow> bool"
  and copied_all :: "golib \<Rightarrow> string \<Rightarrow> string \<Rightarrow> string list \<Rightarrow> fs_effect list \<Rightarrow> bool"
  for L :: golib
where
  copied_file:
    "\<not> IsDir info \<Longrightarrow>
     copied L src dst [Stat src (Inr info), Open src None, Create dst None, IoCopy dst src None]"
| copied_dir:
    "IsDir info \<Longrightarrow> copied_all L src dst names t \<Longrightarrow>
     copied L src dst
       ([Stat src (Inr info), MkdirAll dst (Mode info) None, ReadDir src names rerr] @ t)"
| copied_none: "copied_all L src dst [] []"
| copied_next:
    "copied L (Join L src name) (Join L dst name) t \<Longrightarrow> copied_all L src dst names ts \<Longrightarrow>
     copied_all L src dst (name # names) (t @ ts)"

text \<open>
  The file-system effects of a move phase that succeeded for the entries \<open>names\<close> of
  \<open>src\<close>, as the specification describes it (4.4, step 4): for each entry in order the
  parent of its destination is created and a rename is attempted; when the rename fails
  the entry is copied recursively and the source is removed.
\<close>

inductive moved :: "golib \<Rightarrow> string \<Rightarrow> string \<Rightarrow> string list \<Rightarrow> fs_effect list \<Rightarrow> bool"
  for L :: golib and src :: string and dst :: string
where
  moved_none: "moved L src dst [] []"
| moved_by_rename:
    "moved L src dst names ts \<Longrightarrow>
     moved L src dst (name # names)
       ([MkdirAll (Dir L (Join L dst name)) 493 None,
         Rename (Join L src name) (Join L dst name) None] @ ts)"
| moved_by_copy:
    "copied L (Join L src name) (Join L dst name) t \<Longrightarrow> moved L src dst names ts \<Longrightarrow>
     moved L src dst (name # names)
       ([MkdirAll (Dir L (Join L dst name)) 493 None,
         Rename (Join L src name) (Join L dst name) (Some err)]
        @ t @ [RemoveAll (Join L src name)] @ ts)"

section \<open>A library and an operating system to run examples on\<close>

text \<open>
  The answers of \<open>json.Unmarshal\<close> on the lines the examples use, for each target
  struct. A status or summary object decodes to the record with the fields it names, the
  other fields zero. \<open>[]\<close> is valid JSON that is no object, so the decoder answers with
  an \<open>UnmarshalTypeError\<close>. The remaining lines of the examples are not JSON, and every
  line that is not listed is answered that way.
\<close>

definition zeroFloat :: float64 where
  "zeroFloat = Float64 0 0"

definition sampleStatusLine :: string where
  \<open>sampleStatusLine =
     ''{"message_type":"status","percent_done":0.5,"total_files":4,"files_restored":2}''\<close>

definition sampleStatus :: RestoreProgress where
  "sampleStatus =
     \<lparr>MessageType = ''status'', SecondsElapsed = zeroFloat, SecondsRemaining = zeroFloat,
      PercentDone = Float64 1 (- 1), TotalFiles = 4, FilesRestored = 2, FilesSkipped = 0,
      TotalBytes = 0, BytesRestored = 0, BytesSkipped = 0\<rparr>"

definition sampleUnmarshalRestoreProgress :: "string \<Rightarrow> json_error + RestoreProgress" where
  "sampleUnmarshalRestoreProgress line =
     (if line = sampleStatusLine then Inr sampleStatus
      else if line = ''[]'' then Inl UnmarshalTypeError
      else Inl SyntaxError)"

definition sampleSummaryLine :: string where
  \<open>sampleSummaryLine = ''{"message_type":"summary","files_new":3,"snapshot_id":"4f2a"}''\<close>

definition sampleSummary :: BackupProgress where
  "sampleSummary =
     \<lparr>BackupProgress.MessageType = ''summary'', BackupProgress.SecondsElapsed = zeroFloat,
      BackupProgress.SecondsRemaining = zeroFloat, BackupProgress.PercentDone = zeroFloat,
      BackupProgress.TotalFiles = 0, FilesDone = 0, BackupProgress.TotalBytes = 0,
      BytesDone = 0, ErrorCount = 0, CurrentFiles = [], FilesNew = 3, FilesChanged = 0,
      FilesUnmodified = 0, DirsNew = 0, DirsChanged = 0, DirsUnmodified = 0, DataBlobs = 0,
      TreeBlobs = 0, DataAdded = 0, TotalFilesProc = 0, TotalBytesProc = 0,
      TotalDuration = zeroFloat, SnapshotID = ''4f2a''\<rparr>"

definition sampleUnmarshalBackupProgress :: "string \<Rightarrow> json_error + BackupProgress" where
  "sampleUnmarshalBackupProgress line =
     (if line = sampleSummaryLine then Inr sampleSummary
      else if line = ''[]'' then Inl UnmarshalTypeError
      else Inl SyntaxError)"

definition sampleSnapshotLine :: string where
  \<open>sampleSnapshotLine = ''{"struct_type":"snapshot","id":"4f2a"}''\<close>

definition sampleNodeLine :: string where
  \<open>sampleNodeLine =
     ''{"struct_type":"node","name":"a.txt","type":"file","path":"/G/a.txt","size":12,"mtime":"2024-01-01T00:00:00Z"}''\<close>

definition sampleNode :: FileNode where
  "sampleNode =
     \<lparr>StructType = ''node'', Name = ''a.txt'', Type = ''file'', Path = ''/G/a.txt'', Size = 12,
      MTime = ''2024-01-01T00:00:00Z''\<rparr>"

definition sampleUnmarshalFileNode :: "string \<Rightarrow> json_error + FileNode" where
  "sampleUnmarshalFileNode line =
     (if line = sampleSnapshotLine
      then Inr \<lparr>StructType = ''snapshot'', Name = [], Type = [], Path = [], Size = 0,
                MTime = []\<rparr>
      else if line = sampleNodeLine then Inr sampleNode
      else if line = ''[]'' then Inl UnmarshalTypeError
      else Inl SyntaxError)"

text \<open>
  A library whose Unicode fall-backs leave the text alone, which joins paths with a
  backslash and which decodes with the sample decoders: it agrees with Go on ASCII text,
  on joining a clean Windows path with a file name, and on the lines of the examples.
\<close>

definition plainLib :: golib where
  "plainLib =
     \<lparr>MapToLower = (\<lambda>s. s), MapToUpper = (\<lambda>s. s), TrimFuncIsSpace = (\<lambda>s. s),
      Join = winJoin, Dir = winDir,
      UnmarshalBackupProgress = sampleUnmarshalBackupProgress,
      UnmarshalRestoreProgress = sampleUnmarshalRestoreProgress,
      UnmarshalFileNode = sampleUnmarshalFileNode\<rparr>"

definition quietProc :: proc_run where
  "quietProc =
     \<lparr>pipe_error = None, start_error = None, stdout_lines = [], stderr_lines = [],
      cancel_calls = 0, exit_code = 0, watch_error = False\<rparr>"

text \<open>An operating system on which every call succeeds and every directory is empty.\<close>

definition quietOs :: os where
  "quietOs =
     \<lparr>Environ = [''PATH=C:'' @ [CHR 0x5C] @ ''Windows''],
      NewUUID = ''1a2b3c4d-5e6f-4a7b-8c9d-0e1f2a3b4c5d'',
      os_MkdirAll = (\<lambda>h path perm. None),
      os_ReadDir = (\<lambda>h path. ([], None)),
      os_Rename = (\<lambda>h src dst. None),
      os_Stat = (\<lambda>h path. Inr \<lparr>IsDir = False, Mode = 420\<rparr>),
      os_Open = (\<lambda>h path. None),
      os_Create = (\<lambda>h path. None),
      io_Copy = (\<lambda>h dst src. None),
      CombinedOutput = (\<lambda>cmd. ([], ExitCode 0)),
      run_proc = (\<lambda>h cmd. quietProc)\<rparr>"

definition sampleRunner :: Runner where
  "sampleRunner = \<lparr>resticPath = ''restic.exe'', cancelFunc = False, ctxDone = False\<rparr>"

definition sampleRepo :: Repository where
  "sampleRepo =
     \<lparr>ID = ''r1'', Name = ''home'', URI = ''sftp:host:/srv/repo'', Password = ''hunter2'',
      SourceFolders = [], Excludes = []\<rparr>"

definition sampleApp :: App where
  "sampleApp = \<lparr>config = [sampleRepo], runner = Some sampleRunner\<rparr>"

text \<open>The same operating system with one answer changed: what a synchronous call
  prints and how it exits, or what a streaming subprocess does.\<close>

definition outputOs :: "string \<Rightarrow> exit_status \<Rightarrow> os" where
  "outputOs out status = quietOs\<lparr>CombinedOutput := (\<lambda>cmd. (out, status))\<rparr>"

definition procOs :: "proc_run \<Rightarrow> os" where
  "procOs p = quietOs\<lparr>run_proc := (\<lambda>h cmd. p)\<rparr>"

definition sampleListing :: string where
  "sampleListing =
     sampleSnapshotLine @ [CHR 0x0A] @ sampleNodeLine @ [CHR 0x0A] @ [CHR 0x0A]
       @ ''warning: not json'' @ [CHR 0x0A] @ sampleNodeLine @ [CHR 0x0A]"

definition unmatchedOutput :: string where
  "unmatchedOutput = ''Fatal: unexpected EOF'' @ [CHR 0x0A]"

definition wrongPasswordOutput :: string where
  "wrongPasswordOutput = ''Fatal: wrong password or no key found'' @ [CHR 0x0A]"

text \<open>An engine text that is, byte for byte, the first fixed message of the table.\<close>

definition fixedMessageOutput :: string where
  "fixedMessageOutput = ''Wrong password for this repository.''"

text \<open>\<open>Cancel()\<close> is called once while the subprocess runs; the subprocess ends by itself
  with status 0 and has been waited for when the kill is attempted.\<close>

definition racedProc :: proc_run where
  "racedProc = quietProc\<lparr>cancel_calls := 1\<rparr>"

definition killedProc :: proc_run where
  "killedProc = quietProc\<lparr>stderr_lines := [''signal: killed''], cancel_calls := 1, exit_code := 1\<rparr>"

definition failedProc :: proc_run where
  "failedProc = quietProc\<lparr>stderr_lines := [''Fatal: wrong password or no key found''], exit_code := 1\<rparr>"

definition arrayLineProc :: proc_run where
  "arrayLineProc = quietProc\<lparr>stdout_lines := [''[]'']\<rparr>"

definition mixedLinesProc :: proc_run where
  "mixedLinesProc =
     quietProc\<lparr>stdout_lines := [''unable to open cache'', sampleStatusLine, ''[]'', sampleStatusLine],
               exit_code := 1\<rparr>"

definition backupLinesProc :: proc_run where
  "backupLinesProc = quietProc\<lparr>stdout_lines := [''scan finished'', ''[]'', sampleSummaryLine]\<rparr>"

definition emptyRestoreOs :: os where
  "emptyRestoreOs =
     quietOs\<lparr>os_ReadDir := (\<lambda>h path. ([], Some (NotExist ''The system cannot find the file specified.'')))\<rparr>"

definition sampleTempDir :: string where
  "sampleTempDir = ''G:'' @ [CHR 0x5C] @ ''restic-gui-temp-1a2b3c4d''"

definition sampleRestoreCmd :: Cmd where
  "sampleRestoreCmd =
     \<lparr>cmd_name = ''restic.exe'',
      cmd_args = [''restore'', ''4f2a'', ''--target'', sampleTempDir, ''--json'',
                  ''--include'', ''/G/docs/report.pdf'', ''--include'', ''/G/docs/notes.txt''],
      cmd_env = Environ quietOs @ [''RESTIC_REPOSITORY=sftp:host:/srv/repo'',
                  ''RESTIC_PASSWORD=hunter2'']\<rparr>"






section \<open>The error translator\<close>

lemma ToLower_Nil: "ToLower L [] = []"
  by (simp add: ToLower_def)

lemma Run_fails_iff:
  "(snd (Run L os r uri pw args) = None)
     = (snd (CombinedOutput os (Run_cmd os r uri pw args)) = ExitCode 0)"
  by (simp add: Run_def split: prod.splits)

text \<open>
  Claim C5. For every text \<open>s\<close>, \<open>friendlyError\<close> is the lookup in the translation table
  on the lower-cased text: the message of the first row one of whose substrings occurs;
  when no row matches, a non-empty \<open>s\<close> is returned as it is and the empty text gives
  \<open>Unknown error\<close>. The translation is a function from text to text: whether \<open>Run\<close>
  fails is decided by the exit status alone.
\<close>

theorem friendlyError_table:
  "friendlyError L s = translate L s
   \<and> (find (row_matches (ToLower L s)) translation_table = None \<and> s \<noteq> []
        \<longrightarrow> friendlyError L s = s)
   \<and> friendlyError L [] = ''Unknown error''
   \<and> ((snd (Run L os r uri pw args) = None)
        = (snd (CombinedOutput os (Run_cmd os r uri pw args)) = ExitCode 0))"
  by (simp add: friendlyError_def translate_def translation_table_def row_matches_def Let_def
        ToLower_Nil Run_fails_iff)

theorem friendlyError_table_witness:
  "find (row_matches (ToLower plainLib ''boom'')) translation_table = None \<and> ''boom'' \<noteq> []
   \<and> friendlyError plainLib ''boom'' = ''boom''
   \<and> friendlyError plainLib ''Fatal: WRONG password, dial again''
       = ''Wrong password for this repository.''"
proof -
  have h: "find (row_matches (ToLower plainLib ''boom'')) translation_table = None \<and> ''boom'' \<noteq> []"
    by code_simp
  have t: "translate plainLib ''Fatal: WRONG password, dial again''
             = ''Wrong password for this repository.''"
    by code_simp
  from friendlyError_table [of plainLib "''boom''"] h
  have "friendlyError plainLib ''boom'' = ''boom''" by blast
  moreover from friendlyError_table [of plainLib "''Fatal: WRONG password, dial again''"] t
  have "friendlyError plainLib ''Fatal: WRONG password, dial again''
          = ''Wrong password for this repository.''" by simp
  ultimately show ?thesis using h by blast
qed

subsection \<open>Substrings survive trimming and lower-casing\<close>

lemma Contains_iff: "Contains s p \<longleftrightarrow> (\<exists>a b. s = a @ p @ b)"
proof (induction s)
  case Nil
  then show ?case by auto
next
  case (Cons c cs)
  show ?case
  proof
    assume "Contains (c # cs) p"
    then consider "take (length p) (c # cs) = p" | "Contains cs p" by auto
    then show "\<exists>a b. c # cs = a @ p @ b"
    proof cases
      case 1
      then have "c # cs = [] @ p @ drop (length p) (c # cs)"
        by (metis append_Nil append_take_drop_id)
      then show ?thesis by blast
    next
      case 2
      with Cons.IH obtain a b where "cs = a @ p @ b" by blast
      then have "c # cs = (c # a) @ p @ b" by simp
      then show ?thesis by blast
    qed
  next
    assume "\<exists>a b. c # cs = a @ p @ b"
    then obtain a b where ab: "c # cs = a @ p @ b" by blast
    show "Contains (c # cs) p"
    proof (cases a)
      case Nil
      with ab have "take (length p) (c # cs) = p" by simp
      then show ?thesis by simp
    next
      case (Cons x xs)
      with ab have "cs = xs @ p @ b" by simp
      with Cons.IH have "Contains cs p" by blast
      then show ?thesis by simp
    qed
  qed
qed

lemma Contains_dropWhile:
  assumes "Contains s p" and "p \<noteq> []" and "\<not> P (hd p)"
  shows "Contains (dropWhile P s) p"
proof -
  from assms(1) obtain a b where s: "s = a @ p @ b" by (auto simp: Contains_iff)
  show ?thesis
  proof (cases "\<forall>x \<in> set a. P x")
    case True
    then have "dropWhile P s = dropWhile P (p @ b)" by (simp add: s)
    also have "\<dots> = p @ b" using assms(2,3) by (cases p) auto
    finally show ?thesis by (metis Contains_iff append_Nil)
  next
    case False
    then have "dropWhile P s = dropWhile P a @ p @ b" by (auto simp: s)
    then show ?thesis by (auto simp: Contains_iff)
  qed
qed

lemma Contains_rev: "Contains (rev s) (rev p) = Contains s p"
proof -
  have "(\<exists>a b. rev s = a @ rev p @ b) = (\<exists>a b. s = a @ p @ b)"
  proof
    assume "\<exists>a b. rev s = a @ rev p @ b"
    then obtain a b where "rev s = a @ rev p @ b" by blast
    then have "s = rev b @ p @ rev a" by (metis append.assoc rev_append rev_rev_ident)
    then show "\<exists>a b. s = a @ p @ b" by blast
  next
    assume "\<exists>a b. s = a @ p @ b"
    then obtain a b where "s = a @ p @ b" by blast
    then have "rev s = rev b @ rev p @ rev a" by simp
    then show "\<exists>a b. rev s = a @ rev p @ b" by blast
  qed
  then show ?thesis by (simp add: Contains_iff)
qed

text \<open>Trimming ASCII white space at the two ends keeps an occurrence of a text that
  neither begins nor ends with white space.\<close>

lemma Contains_trim:
  assumes "Contains s p" and "p \<noteq> []" and "\<not> asciiSpace (hd p)" and "\<not> asciiSpace (last p)"
  shows "Contains (dropWhile asciiSpace s) p"
    and "Contains (rev (dropWhile asciiSpace (rev (dropWhile asciiSpace s)))) p"
proof -
  let ?t = "dropWhile asciiSpace s"
  let ?r = "dropWhile asciiSpace (rev ?t)"
  show t: "Contains ?t p" using assms(1,2,3) by (rule Contains_dropWhile)
  have "Contains (rev ?t) (rev p)" using t by (simp add: Contains_rev)
  moreover have "rev p \<noteq> []" "\<not> asciiSpace (hd (rev p))"
    using assms(2,4) by (simp_all add: hd_rev)
  ultimately have "Contains ?r (rev p)" by (rule Contains_dropWhile)
  then show "Contains (rev ?r) p" by (metis Contains_rev rev_rev_ident)
qed

subsection \<open>ASCII text does not reach the library's fall-backs\<close>

lemma of_char_asciiLower:
  "(of_char (asciiLower c) :: nat) =
     (if 65 \<le> (of_char c :: nat) \<and> (of_char c :: nat) \<le> 90 then of_char c + 32 else of_char c)"
  by (simp add: asciiLower_def Let_def)

lemma asciiSpace_asciiLower: "asciiSpace (asciiLower c) = asciiSpace c"
  by (auto simp: asciiSpace_def of_char_asciiLower)

lemma isASCII_asciiLower: "isASCII (asciiLower c) = isASCII c"
  by (auto simp: isASCII_def of_char_asciiLower)

lemma asciiSpace_isASCII: "asciiSpace c \<Longrightarrow> isASCII c"
  by (auto simp: asciiSpace_def isASCII_def)

lemma dropWhile_asciiLower:
  "dropWhile asciiSpace (map asciiLower s) = map asciiLower (dropWhile asciiSpace s)"
  by (induction s) (simp_all add: asciiSpace_asciiLower)

lemma ascii_dropWhile: "list_all isASCII (dropWhile asciiSpace s) = list_all isASCII s"
  by (induction s) (auto simp: asciiSpace_isASCII)

lemma ascii_map_lower: "list_all isASCII (map asciiLower s) = list_all isASCII s"
  by (induction s) (simp_all add: isASCII_asciiLower)

lemma hd_ascii: "list_all isASCII s \<Longrightarrow> s \<noteq> [] \<Longrightarrow> isASCII (hd s)"
  by (cases s) simp_all

lemma TrimSpace_ascii:
  assumes "list_all isASCII s"
  shows "TrimSpace L s = rev (dropWhile asciiSpace (rev (dropWhile asciiSpace s)))"
proof -
  let ?t = "dropWhile asciiSpace s"
  let ?r = "dropWhile asciiSpace (rev ?t)"
  have t: "list_all isASCII ?t" using assms by (simp add: ascii_dropWhile)
  then have "list_all isASCII (rev ?t)" by simp
  then have r: "list_all isASCII ?r" by (simp add: ascii_dropWhile)
  from t r show ?thesis
    by (auto simp: TrimSpace_def Let_def dest: hd_ascii)
qed

lemma ascii_TrimSpace:
  assumes "list_all isASCII s"
  shows "list_all isASCII (TrimSpace L s)"
proof -
  have "list_all isASCII (dropWhile asciiSpace (rev (dropWhile asciiSpace s)))"
    using assms by (simp add: ascii_dropWhile)
  then show ?thesis using assms by (simp add: TrimSpace_ascii)
qed

lemma lower_trim_ascii:
  assumes "list_all isASCII s"
  shows "ToLower L (TrimSpace L s) = TrimSpace L (ToLower L s)"
proof -
  have "ToLower L (TrimSpace L s) = map asciiLower (TrimSpace L s)"
    using ascii_TrimSpace [OF assms] by (simp add: ToLower_def)
  also have "\<dots> = map asciiLower (rev (dropWhile asciiSpace (rev (dropWhile asciiSpace s))))"
    using assms by (simp add: TrimSpace_ascii)
  also have "\<dots> = rev (dropWhile asciiSpace (rev (dropWhile asciiSpace (map asciiLower s))))"
    by (simp add: rev_map dropWhile_asciiLower)
  also have "\<dots> = TrimSpace L (map asciiLower s)"
    using assms by (simp add: TrimSpace_ascii ascii_map_lower)
  also have "\<dots> = TrimSpace L (ToLower L s)"
    using assms by (simp add: ToLower_def)
  finally show ?thesis .
qed

lemma friendlyError_ascii:
  assumes "list_all isASCII s"
  shows "friendlyError L s =
           (case find (row_matches (map asciiLower s)) translation_table of
              Some row \<Rightarrow> snd row
            | None \<Rightarrow> if s = [] then ''Unknown error'' else s)"
  using assms
  by (simp add: friendlyError_def translation_table_def row_matches_def Let_def ToLower_def)

subsection \<open>A match in the raw text is a match in the trimmed text\<close>

lemma Contains_TrimSpace:
  assumes "Contains s p" and "p \<noteq> []" and "\<not> asciiSpace (hd p)" and "\<not> asciiSpace (last p)"
    and "list_all isASCII s \<or> (\<forall>s. Contains s p \<longrightarrow> Contains (TrimFuncIsSpace L s) p)"
  shows "Contains (TrimSpace L s) p"
proof (cases "list_all isASCII s")
  case True
  then show ?thesis using Contains_trim(2) [OF assms(1,2,3,4)] by (simp add: TrimSpace_ascii)
next
  case False
  with assms(5) have k: "\<And>s. Contains s p \<Longrightarrow> Contains (TrimFuncIsSpace L s) p" by blast
  from Contains_trim [OF assms(1,2,3,4)] k show ?thesis
    by (auto simp: TrimSpace_def Let_def)
qed

lemma known_lower_all:
  "list_all (\<lambda>p. map asciiLower p = p \<and> p \<noteq> [] \<and> \<not> asciiSpace (hd p) \<and> \<not> asciiSpace (last p))
     known_substrings"
  by code_simp

lemma known_lower:
  "p \<in> set known_substrings \<Longrightarrow>
     map asciiLower p = p \<and> p \<noteq> [] \<and> \<not> asciiSpace (hd p) \<and> \<not> asciiSpace (last p)"
  using known_lower_all by (simp add: list_all_iff)

lemma match_survives_trim:
  assumes "p \<in> set known_substrings" and "list_all isASCII out \<or> keeps L p"
    and "Contains (ToLower L out) p"
  shows "Contains (ToLower L (TrimSpace L out)) p"
proof -
  from known_lower [OF assms(1)]
  have k: "p \<noteq> []" "\<not> asciiSpace (hd p)" "\<not> asciiSpace (last p)" by simp_all
  have c: "ToLower L (TrimSpace L out) = TrimSpace L (ToLower L out)"
    using assms(2) by (auto simp: lower_trim_ascii keeps_def)
  have "list_all isASCII (ToLower L out)
          \<or> (\<forall>s. Contains s p \<longrightarrow> Contains (TrimFuncIsSpace L s) p)"
    using assms(2) by (auto simp: ToLower_def ascii_map_lower keeps_def)
  with assms(3) k have "Contains (TrimSpace L (ToLower L out)) p"
    by (rule Contains_TrimSpace)
  with c show ?thesis by simp
qed

lemma matched_fixed:
  assumes "p \<in> set known_substrings" and "Contains (ToLower L s) p"
  shows "friendlyError L s \<in> set fixed_messages"
  using assms
  by (auto simp: friendlyError_def Let_def known_substrings_def fixed_messages_def
        translation_table_def)

subsection \<open>The fixed messages that are translated to themselves\<close>

lemma own_translation_all:
  "list_all (\<lambda>m. list_all isASCII m
       \<and> rev (dropWhile asciiSpace (rev (dropWhile asciiSpace m))) = m
       \<and> list_ex (Contains (map asciiLower m)) known_substrings
       \<and> (case find (row_matches (map asciiLower m)) translation_table of
              Some row \<Rightarrow> snd row
            | None \<Rightarrow> if m = [] then ''Unknown error'' else m) = m) own_translation"
  by code_simp

lemma own_translation_fixed:
  assumes "out \<in> set own_translation"
  shows "list_all isASCII out" and "\<exists>p \<in> set known_substrings. Contains (ToLower L out) p"
    and "friendlyError L (TrimSpace L out) = out"
proof -
  from assms own_translation_all have
    a: "list_all isASCII out"
    and t: "rev (dropWhile asciiSpace (rev (dropWhile asciiSpace out))) = out"
    and c: "list_ex (Contains (map asciiLower out)) known_substrings"
    and f: "(case find (row_matches (map asciiLower out)) translation_table of
              Some row \<Rightarrow> snd row
            | None \<Rightarrow> if out = [] then ''Unknown error'' else out) = out"
    by (auto simp: list_all_iff)
  show "list_all isASCII out" by (rule a)
  from c a show "\<exists>p \<in> set known_substrings. Contains (ToLower L out) p"
    by (simp add: list_ex_iff ToLower_def)
  have "TrimSpace L out = out" using a t by (simp add: TrimSpace_ascii)
  with a f show "friendlyError L (TrimSpace L out) = out" by (simp add: friendlyError_ascii)
qed

lemma other_fixed_all:
  "list_all (\<lambda>m. list_all isASCII m \<and> list_ex (Contains (map asciiLower m)) known_substrings
        \<longrightarrow> m \<in> set own_translation) fixed_messages"
  by code_simp

lemma fixed_matching:
  assumes "out \<in> set fixed_messages" and "list_all isASCII out"
    and "p \<in> set known_substrings" and "Contains (ToLower L out) p"
  shows "out \<in> set own_translation"
proof -
  from assms(2,3,4) have "list_ex (Contains (map asciiLower out)) known_substrings"
    by (auto simp: list_ex_iff ToLower_def)
  with assms(1,2) other_fixed_all show ?thesis by (auto simp: list_all_iff)
qed

text \<open>The library of the examples meets the requirement on the fall-backs.\<close>

lemma keeps_plainLib: "keeps plainLib p"
proof -
  have "ToLower plainLib (TrimSpace plainLib s) = TrimSpace plainLib (ToLower plainLib s)" for s
  proof (cases "list_all isASCII s")
    case True
    then show ?thesis by (rule lower_trim_ascii)
  next
    case False
    let ?t = "dropWhile asciiSpace s"
    let ?r = "dropWhile asciiSpace (rev ?t)"
    have t: "\<not> list_all isASCII ?t" using False by (simp add: ascii_dropWhile)
    then have "\<not> list_all isASCII (rev ?t)" by simp
    then have "\<not> list_all isASCII ?r" by (simp add: ascii_dropWhile)
    then have r: "\<not> list_all isASCII (rev ?r)" by simp
    have "\<not> list_all isASCII (TrimSpace plainLib s)"
      using t r by (simp add: TrimSpace_def Let_def plainLib_def)
    with False show ?thesis by (simp add: ToLower_def plainLib_def)
  qed
  then show ?thesis by (simp add: keeps_def plainLib_def)
qed

section \<open>Synchronous calls\<close>

text \<open>
  Claim C4, as amended. When the subprocess exits with status 0, \<open>Run\<close> returns the whole
  captured output and no error. Otherwise it returns empty output and an error whose
  message is the translation of the captured output with the white space at its two ends
  trimmed off. When a substring of the table occurs in the lower-cased trimmed text the
  message is one of the six fixed messages. This is so whenever a substring of the table
  occurs in the lower-cased raw output, for ASCII output and for any output on a library
  that meets \<open>keeps\<close>; the message then differs from the raw output unless the raw
  output is itself a fixed message, and for ASCII output it equals the raw output exactly
  when that is one of the fixed messages that match the table themselves. Those do match
  the table and are reported unchanged.
\<close>

theorem Run_result:
  assumes "CombinedOutput os (Run_cmd os r uri pw args) = (out, status)"
  shows "(status = ExitCode 0 \<longrightarrow> Run L os r uri pw args = (out, None))
       \<and> (status \<noteq> ExitCode 0 \<longrightarrow>
            Run L os r uri pw args = ([], Some (friendlyError L (TrimSpace L out))))
       \<and> (\<forall>p \<in> set known_substrings. Contains (ToLower L (TrimSpace L out)) p \<longrightarrow>
            friendlyError L (TrimSpace L out) \<in> set fixed_messages)
       \<and> (\<forall>p \<in> set known_substrings.
            (list_all isASCII out \<or> keeps L p) \<and> Contains (ToLower L out) p \<longrightarrow>
              friendlyError L (TrimSpace L out) \<in> set fixed_messages
              \<and> (out \<notin> set fixed_messages \<longrightarrow> friendlyError L (TrimSpace L out) \<noteq> out)
              \<and> (list_all isASCII out \<longrightarrow>
                   (friendlyError L (TrimSpace L out) = out) = (out \<in> set own_translation)))
       \<and> (out \<in> set own_translation \<longrightarrow>
            (\<exists>p \<in> set known_substrings. Contains (ToLower L out) p)
            \<and> friendlyError L (TrimSpace L out) = out)"
proof -
  have 1: "status = ExitCode 0 \<longrightarrow> Run L os r uri pw args = (out, None)"
    using assms by (simp add: Run_def)
  have 2: "status \<noteq> ExitCode 0 \<longrightarrow>
            Run L os r uri pw args = ([], Some (friendlyError L (TrimSpace L out)))"
    using assms by (simp add: Run_def)
  have 3: "\<forall>p \<in> set known_substrings. Contains (ToLower L (TrimSpace L out)) p \<longrightarrow>
            friendlyError L (TrimSpace L out) \<in> set fixed_messages"
    using matched_fixed by blast
  have 4: "\<forall>p \<in> set known_substrings.
            (list_all isASCII out \<or> keeps L p) \<and> Contains (ToLower L out) p \<longrightarrow>
              friendlyError L (TrimSpace L out) \<in> set fixed_messages
              \<and> (out \<notin> set fixed_messages \<longrightarrow> friendlyError L (TrimSpace L out) \<noteq> out)
              \<and> (list_all isASCII out \<longrightarrow>
                   (friendlyError L (TrimSpace L out) = out) = (out \<in> set own_translation))"
  proof (intro ballI impI, elim conjE)
    fix p
    assume p: "p \<in> set known_substrings" and l: "list_all isASCII out \<or> keeps L p"
      and c: "Contains (ToLower L out) p"
    from p l c have "Contains (ToLower L (TrimSpace L out)) p" by (rule match_survives_trim)
    with p have f: "friendlyError L (TrimSpace L out) \<in> set fixed_messages"
      by (rule matched_fixed)
    have e: "list_all isASCII out \<longrightarrow>
               (friendlyError L (TrimSpace L out) = out) = (out \<in> set own_translation)"
    proof
      assume a: "list_all isASCII out"
      show "(friendlyError L (TrimSpace L out) = out) = (out \<in> set own_translation)"
      proof
        assume "friendlyError L (TrimSpace L out) = out"
        with f have "out \<in> set fixed_messages" by simp
        then show "out \<in> set own_translation" using a p c by (rule fixed_matching)
      next
        assume "out \<in> set own_translation"
        then show "friendlyError L (TrimSpace L out) = out" by (rule own_translation_fixed(3))
      qed
    qed
    from f e show "friendlyError L (TrimSpace L out) \<in> set fixed_messages
              \<and> (out \<notin> set fixed_messages \<longrightarrow> friendlyError L (TrimSpace L out) \<noteq> out)
              \<and> (list_all isASCII out \<longrightarrow>
                   (friendlyError L (TrimSpace L out) = out) = (out \<in> set own_translation))"
      by auto
  qed
  have 5: "out \<in> set own_translation \<longrightarrow>
            (\<exists>p \<in> set known_substrings. Contains (ToLower L out) p)
            \<and> friendlyError L (TrimSpace L out) = out"
    using own_translation_fixed(2,3) by blast
  from 1 2 3 4 5 show ?thesis by blast
qed

text \<open>
  The claim as stated has the message equal to the translation of the raw output, and
  different from the raw output whenever that matches the table. A subprocess that prints
  an unmatched line and exits with status 1 shows the first difference: the translation
  of the raw text is the text itself, with its line feed, and \<open>Run\<close> reports it without
  the line feed. For a subprocess that prints a single line feed the raw text is not
  empty and matches no row, and \<open>Run\<close> reports \<open>Unknown error\<close>. A subprocess that
  prints the text of the first fixed message shows the second: the lower-cased text
  contains \<open>wrong password\<close>, and the message reported is the raw text.
\<close>

theorem Run_message_counterexample:
  "CombinedOutput (outputOs unmatchedOutput (ExitCode 1))
       (Run_cmd (outputOs unmatchedOutput (ExitCode 1)) sampleRunner [] [] [''version''])
     = (unmatchedOutput, ExitCode 1)
   \<and> snd (Run plainLib (outputOs unmatchedOutput (ExitCode 1)) sampleRunner [] [] [''version''])
       = Some ''Fatal: unexpected EOF''
   \<and> friendlyError plainLib unmatchedOutput = ''Fatal: unexpected EOF'' @ [CHR 0x0A]
   \<and> snd (Run plainLib (outputOs unmatchedOutput (ExitCode 1)) sampleRunner [] [] [''version''])
       \<noteq> Some (friendlyError plainLib unmatchedOutput)
   \<and> CombinedOutput (outputOs [CHR 0x0A] (ExitCode 1))
       (Run_cmd (outputOs [CHR 0x0A] (ExitCode 1)) sampleRunner [] [] [''version''])
     = ([CHR 0x0A], ExitCode 1)
   \<and> snd (Run plainLib (outputOs [CHR 0x0A] (ExitCode 1)) sampleRunner [] [] [''version''])
       = Some ''Unknown error''
   \<and> friendlyError plainLib [CHR 0x0A] = [CHR 0x0A]
   \<and> snd (Run plainLib (outputOs [CHR 0x0A] (ExitCode 1)) sampleRunner [] [] [''version''])
       \<noteq> Some (friendlyError plainLib [CHR 0x0A])
   \<and> CombinedOutput (outputOs fixedMessageOutput (ExitCode 1))
       (Run_cmd (outputOs fixedMessageOutput (ExitCode 1)) sampleRunner (URI sampleRepo)
          (Password sampleRepo) [''cat'', ''config''])
     = (fixedMessageOutput, ExitCode 1)
   \<and> ''wrong password'' \<in> set known_substrings
   \<and> Contains (ToLower plainLib fixedMessageOutput) ''wrong password''
   \<and> Run plainLib (outputOs fixedMessageOutput (ExitCode 1)) sampleRunner (URI sampleRepo)
          (Password sampleRepo) [''cat'', ''config'']
       = ([], Some fixedMessageOutput)"
  by code_simp

theorem Run_result_witness:
  "CombinedOutput (outputOs wrongPasswordOutput (ExitCode 1))
       (Run_cmd (outputOs wrongPasswordOutput (ExitCode 1)) sampleRunner (URI sampleRepo)
          (Password sampleRepo) [''cat'', ''config''])
     = (wrongPasswordOutput, ExitCode 1)
   \<and> ExitCode 1 \<noteq> ExitCode 0
   \<and> ''wrong password'' \<in> set known_substrings
   \<and> list_all isASCII wrongPasswordOutput
   \<and> keeps plainLib ''wrong password''
   \<and> Contains (ToLower plainLib wrongPasswordOutput) ''wrong password''
   \<and> Contains (ToLower plainLib (TrimSpace plainLib wrongPasswordOutput)) ''wrong password''
   \<and> wrongPasswordOutput \<notin> set fixed_messages
   \<and> wrongPasswordOutput \<notin> set own_translation
   \<and> Run plainLib (outputOs wrongPasswordOutput (ExitCode 1)) sampleRunner (URI sampleRepo)
          (Password sampleRepo) [''cat'', ''config'']
       = ([], Some ''Wrong password for this repository.'')
   \<and> friendlyError plainLib (TrimSpace plainLib wrongPasswordOutput) \<in> set fixed_messages
   \<and> friendlyError plainLib (TrimSpace plainLib wrongPasswordOutput) \<noteq> wrongPasswordOutput
   \<and> CombinedOutput (outputOs fixedMessageOutput (ExitCode 1))
       (Run_cmd (outputOs fixedMessageOutput (ExitCode 1)) sampleRunner (URI sampleRepo)
          (Password sampleRepo) [''cat'', ''config''])
     = (fixedMessageOutput, ExitCode 1)
   \<and> own_translation
       = [''Wrong password for this repository.'', ''Network error. Is the server reachable?'']
   \<and> fixedMessageOutput \<in> set own_translation
   \<and> friendlyError plainLib (TrimSpace plainLib fixedMessageOutput) = fixedMessageOutput
   \<and> CombinedOutput (outputOs ''restic 0.16.4'' (ExitCode 0))
       (Run_cmd (outputOs ''restic 0.16.4'' (ExitCode 0)) sampleRunner [] [] [''version''])
     = (''restic 0.16.4'', ExitCode 0)
   \<and> Run plainLib (outputOs ''restic 0.16.4'' (ExitCode 0)) sampleRunner [] [] [''version'']
       = (''restic 0.16.4'', None)"
proof -
  let ?os = "outputOs wrongPasswordOutput (ExitCode 1)"
  let ?osf = "outputOs fixedMessageOutput (ExitCode 1)"
  let ?osv = "outputOs ''restic 0.16.4'' (ExitCode 0)"
  have h: "CombinedOutput ?os (Run_cmd ?os sampleRunner (URI sampleRepo) (Password sampleRepo)
             [''cat'', ''config'']) = (wrongPasswordOutput, ExitCode 1)"
    by (simp add: outputOs_def)
  have hf: "CombinedOutput ?osf (Run_cmd ?osf sampleRunner (URI sampleRepo) (Password sampleRepo)
             [''cat'', ''config'']) = (fixedMessageOutput, ExitCode 1)"
    by (simp add: outputOs_def)
  have hv: "CombinedOutput ?osv (Run_cmd ?osv sampleRunner [] [] [''version''])
             = (''restic 0.16.4'', ExitCode 0)"
    by (simp add: outputOs_def)
  have k: "''wrong password'' \<in> set known_substrings"
    by (simp add: known_substrings_def translation_table_def)
  have a: "list_all isASCII wrongPasswordOutput" by code_simp
  have c: "Contains (ToLower plainLib wrongPasswordOutput) ''wrong password''" by code_simp
  have c': "Contains (ToLower plainLib (TrimSpace plainLib wrongPasswordOutput)) ''wrong password''"
    by code_simp
  have n: "wrongPasswordOutput \<notin> set fixed_messages" by code_simp
  have n': "wrongPasswordOutput \<notin> set own_translation" by code_simp
  have m: "friendlyError plainLib (TrimSpace plainLib wrongPasswordOutput)
             = ''Wrong password for this repository.''"
    by code_simp
  have v: "own_translation
       = [''Wrong password for this repository.'', ''Network error. Is the server reachable?'']"
    by code_simp
  have o: "fixedMessageOutput \<in> set own_translation"
    by (simp add: v fixedMessageOutput_def)
  note r = Run_result [OF h, of plainLib] and rf = Run_result [OF hf, of plainLib]
    and rv = Run_result [OF hv, of plainLib]
  from r have "Run plainLib ?os sampleRunner (URI sampleRepo) (Password sampleRepo)
                 [''cat'', ''config''] = ([], Some ''Wrong password for this repository.'')"
    by (simp add: m)
  moreover from r k a c n
  have "friendlyError plainLib (TrimSpace plainLib wrongPasswordOutput) \<in> set fixed_messages
      \<and> friendlyError plainLib (TrimSpace plainLib wrongPasswordOutput) \<noteq> wrongPasswordOutput"
    by blast
  moreover from rf o
  have "friendlyError plainLib (TrimSpace plainLib fixedMessageOutput) = fixedMessageOutput"
    by blast
  moreover from rv have "Run plainLib ?osv sampleRunner [] [] [''version'']
      = (''restic 0.16.4'', None)" by simp
  ultimately show ?thesis using h hf hv k a c c' n n' v o keeps_plainLib by simp
qed

section \<open>Secrets and the command line\<close>

lemma started_map_emit: "started (map (\<lambda>x. EventsEmit n (f x)) xs) = []"
  by (induction xs) auto

lemma started_append: "started (xs @ ys) = started xs @ started ys"
  by (induction xs rule: started.induct) auto

lemma created_append: "created (xs @ ys) = created xs @ created ys"
  by (induction xs rule: created.induct) auto

lemma emitted_append: "emitted (xs @ ys) = emitted xs @ emitted ys"
  by (induction xs rule: emitted.induct) auto

lemma emitted_map_emit: "emitted (map (\<lambda>x. EventsEmit n (f x)) xs) = map (\<lambda>x. (n, f x)) xs"
  by (induction xs) auto

lemma concat_restoreLine:
  "concat (map (restoreLine L) ls)
     = map (\<lambda>x. EventsEmit ''restore:progress'' (RestoreData x))
         (decoded (UnmarshalRestoreProgress L) ls)"
  by (induction ls) (auto simp: restoreLine_def split: sum.splits)

lemma concat_backupLine:
  "concat (map (backupLine L) ls)
     = map (\<lambda>x. EventsEmit ''backup:progress'' (BackupData x))
         (decoded (UnmarshalBackupProgress L) ls)"
  by (induction ls) (auto simp: backupLine_def split: sum.splits)

lemma RunWithProgress_started:
  "started (fst (snd (RunWithProgress L os h r uri pw args (restoreLine L))))
     = (if pipe_error (run_proc os h (RunWithProgress_cmd os r uri pw args)) = None
        then [RunWithProgress_cmd os r uri pw args] else [])"
  by (auto simp: RunWithProgress_def Let_def concat_restoreLine started_map_emit
        split: option.splits)

lemma RunWithProgress_started_backup:
  "started (fst (snd (RunWithProgress L os h r uri pw args (backupLine L))))
     = (if pipe_error (run_proc os h (RunWithProgress_cmd os r uri pw args)) = None
        then [RunWithProgress_cmd os r uri pw args] else [])"
  by (auto simp: RunWithProgress_def Let_def concat_backupLine started_map_emit
        split: option.splits)

lemma StartBackup_started:
  "set (map cmd_args (started (snd (StartBackup L os a job)))) \<subseteq> {backup_args job}"
proof (cases "runner a")
  case None
  then show ?thesis by (simp add: StartBackup_def)
next
  case (Some r)
  show ?thesis
  proof (cases "GetRepository (config a) (RepoID job)")
    case None
    with Some show ?thesis by (simp add: StartBackup_def)
  next
    case (Some repo)
    obtain r' t e where rw: "RunWithProgress L os [] r (URI repo) (Password repo) (backup_args job)
        (backupLine L) = (r', t, e)" by (metis prod_cases3)
    from RunWithProgress_started_backup [of L os "[]" r "URI repo" "Password repo"
        "backup_args job"] rw
    have "set (map cmd_args (started t)) \<subseteq> {backup_args job}"
      by (auto simp: RunWithProgress_cmd_def split: if_splits)
    with \<open>runner a = Some r\<close> Some rw show ?thesis
      by (cases e) (simp_all add: StartBackup_def started_append)
  qed
qed

lemma StartRestore_started:
  "set (map cmd_args (started (snd (StartRestore L os a repoID snapshotID targetPath))))
     \<subseteq> {restore_args snapshotID targetPath []}"
proof (cases "runner a")
  case None
  then show ?thesis by (simp add: StartRestore_def)
next
  case (Some r)
  show ?thesis
  proof (cases "GetRepository (config a) repoID")
    case None
    with Some show ?thesis by (simp add: StartRestore_def)
  next
    case (Some repo)
    obtain r' t e where rw: "RunWithProgress L os [] r (URI repo) (Password repo)
        (restore_args snapshotID targetPath []) (restoreLine L) = (r', t, e)" by (metis prod_cases3)
    from RunWithProgress_started [of L os "[]" r "URI repo" "Password repo"
        "restore_args snapshotID targetPath []"] rw
    have "set (map cmd_args (started t)) \<subseteq> {restore_args snapshotID targetPath []}"
      by (auto simp: RunWithProgress_cmd_def split: if_splits)
    with \<open>runner a = Some r\<close> Some rw show ?thesis
      by (cases e) (simp_all add: StartRestore_def started_append)
  qed
qed

text \<open>
  Claim C8. The command the runner builds has the arguments it was given, whatever the
  repository URI and the secret are: for any two URIs and any two secrets the binary
  and the argument list are the same. The URI and the secret go into the two
  environment variables appended to the environment of the child (\<open>Run\<close> appends them
  when the URI is not empty), and a streaming call starts no other subprocess than this
  command. The arguments of a backup and of a full restore are built from the job, the
  snapshot and the target alone.
\<close>

theorem secrets_not_in_args:
  "cmd_args (Run_cmd os r uri1 pw1 args) = cmd_args (Run_cmd os r uri2 pw2 args)
   \<and> cmd_name (Run_cmd os r uri1 pw1 args) = cmd_name (Run_cmd os r uri2 pw2 args)
   \<and> cmd_args (RunWithProgress_cmd os r uri1 pw1 args)
       = cmd_args (RunWithProgress_cmd os r uri2 pw2 args)
   \<and> cmd_name (RunWithProgress_cmd os r uri1 pw1 args)
       = cmd_name (RunWithProgress_cmd os r uri2 pw2 args)
   \<and> cmd_args (Run_cmd os r uri1 pw1 args) = args
   \<and> cmd_args (RunWithProgress_cmd os r uri1 pw1 args) = args
   \<and> cmd_env (RunWithProgress_cmd os r uri1 pw1 args)
       = Environ os @ [''RESTIC_REPOSITORY='' @ uri1, ''RESTIC_PASSWORD='' @ pw1]
   \<and> cmd_env (Run_cmd os r uri1 pw1 args)
       = (if uri1 = [] then Environ os
          else Environ os @ [''RESTIC_REPOSITORY='' @ uri1, ''RESTIC_PASSWORD='' @ pw1])
   \<and> map cmd_args (started (fst (snd (RunWithProgress L os h r uri1 pw1 args (restoreLine L)))))
       = (if pipe_error (run_proc os h (RunWithProgress_cmd os r uri1 pw1 args)) = None
          then [args] else [])
   \<and> map cmd_args (started (fst (snd (RunWithProgress L os h r uri1 pw1 args (backupLine L)))))
       = (if pipe_error (run_proc os h (RunWithProgress_cmd os r uri1 pw1 args)) = None
          then [args] else [])
   \<and> set (map cmd_args (started (snd (StartBackup L os a job)))) \<subseteq> {backup_args job}
   \<and> set (map cmd_args (started (snd (StartRestore L os a repoID snapshotID targetPath))))
       \<subseteq> {restore_args snapshotID targetPath []}"
  using StartBackup_started [of L os a job]
    StartRestore_started [of L os a repoID snapshotID targetPath]
  by (simp add: RunWithProgress_started RunWithProgress_started_backup)
     (simp add: Run_cmd_def RunWithProgress_cmd_def)

theorem secrets_not_in_args_witness:
  "cmd_args (Run_cmd quietOs sampleRunner ''sftp:host:/srv/repo'' ''hunter2'' [''snapshots'', ''--json''])
     = cmd_args (Run_cmd quietOs sampleRunner ''s3:bucket/repo'' ''correct horse'' [''snapshots'', ''--json''])
   \<and> cmd_args (Run_cmd quietOs sampleRunner ''sftp:host:/srv/repo'' ''hunter2'' [''snapshots'', ''--json''])
       = [''snapshots'', ''--json'']
   \<and> ''sftp:host:/srv/repo'' \<noteq> []
   \<and> cmd_env (Run_cmd quietOs sampleRunner ''sftp:host:/srv/repo'' ''hunter2'' [''snapshots'', ''--json''])
       = Environ quietOs @ [''RESTIC_REPOSITORY=sftp:host:/srv/repo'', ''RESTIC_PASSWORD=hunter2'']
   \<and> pipe_error (run_proc quietOs []
         (RunWithProgress_cmd quietOs sampleRunner ''sftp:host:/srv/repo'' ''hunter2''
            (restore_args ''4f2a'' ''D:'' []))) = None
   \<and> map cmd_args (started (fst (snd (RunWithProgress plainLib quietOs [] sampleRunner
         ''sftp:host:/srv/repo'' ''hunter2'' (restore_args ''4f2a'' ''D:'' []) (restoreLine plainLib)))))
       = [[''restore'', ''4f2a'', ''--target'', ''D:'', ''--json'']]"
proof -
  have h: "pipe_error (run_proc quietOs []
         (RunWithProgress_cmd quietOs sampleRunner ''sftp:host:/srv/repo'' ''hunter2''
            (restore_args ''4f2a'' ''D:'' []))) = None"
    by code_simp
  have a: "restore_args ''4f2a'' ''D:'' [] = [''restore'', ''4f2a'', ''--target'', ''D:'', ''--json'']"
    by code_simp
  note t = secrets_not_in_args [of quietOs sampleRunner "''sftp:host:/srv/repo''" "''hunter2''"
      "[''snapshots'', ''--json'']" "''s3:bucket/repo''" "''correct horse''"]
  note u = secrets_not_in_args [of quietOs sampleRunner "''sftp:host:/srv/repo''" "''hunter2''"
      "restore_args ''4f2a'' ''D:'' []" "''s3:bucket/repo''" "''correct horse''" plainLib "[]"]
  from t have 1: "cmd_args (Run_cmd quietOs sampleRunner ''sftp:host:/srv/repo'' ''hunter2'' [''snapshots'', ''--json''])
     = cmd_args (Run_cmd quietOs sampleRunner ''s3:bucket/repo'' ''correct horse'' [''snapshots'', ''--json''])"
    by blast
  from t have 2: "cmd_args (Run_cmd quietOs sampleRunner ''sftp:host:/srv/repo'' ''hunter2'' [''snapshots'', ''--json''])
       = [''snapshots'', ''--json'']" by blast
  from t have 3: "cmd_env (Run_cmd quietOs sampleRunner ''sftp:host:/srv/repo'' ''hunter2'' [''snapshots'', ''--json''])
       = Environ quietOs @ [''RESTIC_REPOSITORY=sftp:host:/srv/repo'', ''RESTIC_PASSWORD=hunter2'']"
    by simp
  from u h a have 4: "map cmd_args (started (fst (snd (RunWithProgress plainLib quietOs [] sampleRunner
         ''sftp:host:/srv/repo'' ''hunter2'' (restore_args ''4f2a'' ''D:'' []) (restoreLine plainLib)))))
       = [[''restore'', ''4f2a'', ''--target'', ''D:'', ''--json'']]" by simp
  from 1 2 3 4 h show ?thesis by simp
qed

section \<open>Cancellation\<close>

lemma Cancel_pow_registered:
  "cancelFunc r \<Longrightarrow>
     cancelFunc ((Cancel ^^ n) r) \<and> ctxDone ((Cancel ^^ n) r) = (ctxDone r \<or> 0 < n)"
  by (induction n) (auto simp: Cancel_def)

lemma ctxDone_begin:
  "ctxDone ((Cancel ^^ n) (r\<lparr>cancelFunc := True, ctxDone := False\<rparr>)) = (0 < n)"
  using Cancel_pow_registered [of "r\<lparr>cancelFunc := True, ctxDone := False\<rparr>" n] by simp

text \<open>
  Claim C2, as amended. For a streaming call whose subprocess was started: when
  \<open>Cancel()\<close> was called while the call was in flight and \<open>Wait\<close> reports an error (the
  exit status is not 0, or the watcher of the context reports one), the call returns the
  error \<open>cancelled\<close>, whatever the exit status and the text on standard error are. When
  \<open>Cancel()\<close> was called but the process ended by itself with status 0 and \<open>Wait\<close>
  reports no error, the call returns no error, which is reported as completion. Without a
  cancellation the exit status decides: status 0 gives no error, any other status gives
  the translated text of standard error.
\<close>

theorem cancel_classification:
  assumes "p = run_proc os h (RunWithProgress_cmd os r uri pw args)"
    and "pipe_error p = None" and "start_error p = None"
  shows "(0 < cancel_calls p \<and> (exit_code p \<noteq> 0 \<or> watch_error p) \<longrightarrow>
            snd (snd (RunWithProgress L os h r uri pw args onLine)) = Some ''cancelled'')
       \<and> (0 < cancel_calls p \<and> exit_code p = 0 \<and> \<not> watch_error p \<longrightarrow>
            snd (snd (RunWithProgress L os h r uri pw args onLine)) = None)
       \<and> (cancel_calls p = 0 \<and> exit_code p = 0 \<longrightarrow>
            snd (snd (RunWithProgress L os h r uri pw args onLine)) = None)
       \<and> (cancel_calls p = 0 \<and> exit_code p \<noteq> 0 \<longrightarrow>
            snd (snd (RunWithProgress L os h r uri pw args onLine))
              = Some (friendlyError L (TrimSpace L (stderrBuf (stderr_lines p)))))"
  using assms by (simp add: RunWithProgress_def Let_def ctxDone_begin)

theorem cancel_exit_zero_counterexample:
  "pipe_error racedProc = None \<and> start_error racedProc = None
   \<and> 0 < cancel_calls racedProc \<and> exit_code racedProc = 0
   \<and> run_proc (procOs racedProc) []
        (RunWithProgress_cmd (procOs racedProc) sampleRunner (URI sampleRepo)
           (Password sampleRepo) [''backup'', ''--json'']) = racedProc
   \<and> snd (snd (RunWithProgress plainLib (procOs racedProc) [] sampleRunner
         (URI sampleRepo) (Password sampleRepo) [''backup'', ''--json''] (backupLine plainLib)))
       = None
   \<and> snd (snd (RunWithProgress plainLib (procOs racedProc) [] sampleRunner
         (URI sampleRepo) (Password sampleRepo) [''backup'', ''--json''] (backupLine plainLib)))
       \<noteq> Some ''cancelled''"
  by code_simp

theorem cancel_classification_witness:
  "pipe_error killedProc = None \<and> start_error killedProc = None
   \<and> 0 < cancel_calls killedProc \<and> exit_code killedProc \<noteq> 0
   \<and> snd (snd (RunWithProgress plainLib (procOs killedProc) [] sampleRunner
         (URI sampleRepo) (Password sampleRepo) [''backup'', ''--json''] (backupLine plainLib)))
       = Some ''cancelled''
   \<and> pipe_error failedProc = None \<and> start_error failedProc = None
   \<and> cancel_calls failedProc = 0 \<and> exit_code failedProc \<noteq> 0
   \<and> snd (snd (RunWithProgress plainLib (procOs failedProc) [] sampleRunner
         (URI sampleRepo) (Password sampleRepo) [''backup'', ''--json''] (backupLine plainLib)))
       = Some ''Wrong password for this repository.''
   \<and> pipe_error quietProc = None \<and> start_error quietProc = None
   \<and> cancel_calls quietProc = 0 \<and> exit_code quietProc = 0
   \<and> snd (snd (RunWithProgress plainLib (procOs quietProc) [] sampleRunner
         (URI sampleRepo) (Password sampleRepo) [''backup'', ''--json''] (backupLine plainLib)))
       = None"
proof -
  have run: "\<And>p h c. run_proc (procOs p) h c = p" by (simp add: procOs_def)
  have k: "pipe_error killedProc = None" "start_error killedProc = None" "0 < cancel_calls killedProc"
      "exit_code killedProc \<noteq> 0"
    by (simp_all add: killedProc_def quietProc_def)
  have f: "pipe_error failedProc = None" "start_error failedProc = None" "cancel_calls failedProc = 0"
      "exit_code failedProc \<noteq> 0"
    by (simp_all add: failedProc_def quietProc_def)
  have q: "pipe_error quietProc = None" "start_error quietProc = None" "cancel_calls quietProc = 0"
      "exit_code quietProc = 0"
    by (simp_all add: quietProc_def)
  have m: "friendlyError plainLib (TrimSpace plainLib (stderrBuf (stderr_lines failedProc)))
             = ''Wrong password for this repository.''"
    by code_simp
  note ck = cancel_classification [of killedProc "procOs killedProc" "[]" sampleRunner
      "URI sampleRepo" "Password sampleRepo" "[''backup'', ''--json'']" plainLib "backupLine plainLib"]
  note cf = cancel_classification [of failedProc "procOs failedProc" "[]" sampleRunner
      "URI sampleRepo" "Password sampleRepo" "[''backup'', ''--json'']" plainLib "backupLine plainLib"]
  note cq = cancel_classification [of quietProc "procOs quietProc" "[]" sampleRunner
      "URI sampleRepo" "Password sampleRepo" "[''backup'', ''--json'']" plainLib "backupLine plainLib"]
  from ck k run have 1: "snd (snd (RunWithProgress plainLib (procOs killedProc) [] sampleRunner
         (URI sampleRepo) (Password sampleRepo) [''backup'', ''--json''] (backupLine plainLib)))
       = Some ''cancelled''" by simp
  from cf f run m have 2: "snd (snd (RunWithProgress plainLib (procOs failedProc) [] sampleRunner
         (URI sampleRepo) (Password sampleRepo) [''backup'', ''--json''] (backupLine plainLib)))
       = Some ''Wrong password for this repository.''" by simp
  from cq q run have 3: "snd (snd (RunWithProgress plainLib (procOs quietProc) [] sampleRunner
         (URI sampleRepo) (Password sampleRepo) [''backup'', ''--json''] (backupLine plainLib)))
       = None" by simp
  from 1 2 3 k f q show ?thesis by simp
qed

section \<open>Progress events\<close>

lemma decoded_append: "decoded u (xs @ ys) = decoded u xs @ decoded u ys"
  by (induction xs) (auto split: sum.splits)

lemma RunWithProgress_effects:
  assumes "p = run_proc os h (RunWithProgress_cmd os r uri pw args)"
    and "pipe_error p = None" and "start_error p = None"
  shows "fst (snd (RunWithProgress L os h r uri pw args onLine))
          = Start (RunWithProgress_cmd os r uri pw args) None # concat (map onLine (stdout_lines p))"
  using assms by (simp add: RunWithProgress_def Let_def)

text \<open>
  Claim C3, as amended. For the lines delivered during a streamed restore or backup, the
  progress events emitted are the records of the lines that \<open>json.Unmarshal\<close> decodes
  into the progress struct without error, in the order of the lines. Each line counts on
  its own: a line that decodes gives exactly one event, a line that does not decode
  (text that is not JSON, or JSON that does not fit the struct) gives none, and the
  lines before and after it are treated as if it were not there.
\<close>

theorem progress_stream:
  assumes "p = run_proc os h (RunWithProgress_cmd os r uri pw args)"
    and "pipe_error p = None" and "start_error p = None"
  shows "emitted (fst (snd (RunWithProgress L os h r uri pw args (restoreLine L))))
           = map (\<lambda>x. (''restore:progress'', RestoreData x))
               (decoded (UnmarshalRestoreProgress L) (stdout_lines p))
       \<and> emitted (fst (snd (RunWithProgress L os h r uri pw args (backupLine L))))
           = map (\<lambda>x. (''backup:progress'', BackupData x))
               (decoded (UnmarshalBackupProgress L) (stdout_lines p))
       \<and> (\<forall>u xs l ys. decoded (u :: string \<Rightarrow> json_error + RestoreProgress) (xs @ l # ys)
             = decoded u xs @ (case u l of Inr x \<Rightarrow> [x] | Inl e \<Rightarrow> []) @ decoded u ys)
       \<and> (\<forall>u xs l ys. decoded (u :: string \<Rightarrow> json_error + BackupProgress) (xs @ l # ys)
             = decoded u xs @ (case u l of Inr x \<Rightarrow> [x] | Inl e \<Rightarrow> []) @ decoded u ys)
       \<and> (\<forall>l x. UnmarshalRestoreProgress L l = Inr x \<longrightarrow>
             restoreLine L l = [EventsEmit ''restore:progress'' (RestoreData x)])
       \<and> (\<forall>l e. UnmarshalRestoreProgress L l = Inl e \<longrightarrow> restoreLine L l = [])
       \<and> (\<forall>l x. UnmarshalBackupProgress L l = Inr x \<longrightarrow>
             backupLine L l = [EventsEmit ''backup:progress'' (BackupData x)])
       \<and> (\<forall>l e. UnmarshalBackupProgress L l = Inl e \<longrightarrow> backupLine L l = [])"
  using assms
  by (auto simp: RunWithProgress_effects concat_restoreLine concat_backupLine emitted_map_emit
        decoded_append restoreLine_def backupLine_def split: sum.splits)

text \<open>The line \<open>[]\<close> is valid JSON: the decoder's error is not a syntax error. No event is
  emitted for it.\<close>

theorem valid_json_dropped_counterexample:
  "pipe_error arrayLineProc = None \<and> start_error arrayLineProc = None
   \<and> stdout_lines arrayLineProc = [''[]'']
   \<and> UnmarshalRestoreProgress plainLib ''[]'' = Inl UnmarshalTypeError
   \<and> UnmarshalRestoreProgress plainLib ''[]'' \<noteq> Inl SyntaxError
   \<and> emitted (fst (snd (RunWithProgress plainLib (procOs arrayLineProc) [] sampleRunner
        (URI sampleRepo) (Password sampleRepo) (restore_args ''4f2a'' ''D:'' [])
        (restoreLine plainLib)))) = []"
  by code_simp

theorem progress_stream_witness:
  "pipe_error mixedLinesProc = None \<and> start_error mixedLinesProc = None
   \<and> emitted (fst (snd (RunWithProgress plainLib (procOs mixedLinesProc) [] sampleRunner
        (URI sampleRepo) (Password sampleRepo) (restore_args ''4f2a'' ''D:'' [])
        (restoreLine plainLib))))
       = [(''restore:progress'', RestoreData sampleStatus),
          (''restore:progress'', RestoreData sampleStatus)]
   \<and> pipe_error backupLinesProc = None \<and> start_error backupLinesProc = None
   \<and> emitted (fst (snd (RunWithProgress plainLib (procOs backupLinesProc) [] sampleRunner
        (URI sampleRepo) (Password sampleRepo) [''backup'', ''--json'', ''D:'']
        (backupLine plainLib))))
       = [(''backup:progress'', BackupData sampleSummary)]"
proof -
  have run: "\<And>p h c. run_proc (procOs p) h c = p" by (simp add: procOs_def)
  have h: "pipe_error mixedLinesProc = None" "start_error mixedLinesProc = None"
    by (simp_all add: mixedLinesProc_def quietProc_def)
  have hb: "pipe_error backupLinesProc = None" "start_error backupLinesProc = None"
    by (simp_all add: backupLinesProc_def quietProc_def)
  have d: "decoded (UnmarshalRestoreProgress plainLib) (stdout_lines mixedLinesProc)
             = [sampleStatus, sampleStatus]"
    by code_simp
  have db: "decoded (UnmarshalBackupProgress plainLib) (stdout_lines backupLinesProc)
             = [sampleSummary]"
    by code_simp
  from progress_stream [of mixedLinesProc "procOs mixedLinesProc" "[]" sampleRunner
      "URI sampleRepo" "Password sampleRepo" "restore_args ''4f2a'' ''D:'' []" plainLib] h run d
  have 1: "emitted (fst (snd (RunWithProgress plainLib (procOs mixedLinesProc) [] sampleRunner
        (URI sampleRepo) (Password sampleRepo) (restore_args ''4f2a'' ''D:'' [])
        (restoreLine plainLib))))
       = [(''restore:progress'', RestoreData sampleStatus),
          (''restore:progress'', RestoreData sampleStatus)]" by simp
  from progress_stream [of backupLinesProc "procOs backupLinesProc" "[]" sampleRunner
      "URI sampleRepo" "Password sampleRepo" "[''backup'', ''--json'', ''D:'']" plainLib] hb run db
  have 2: "emitted (fst (snd (RunWithProgress plainLib (procOs backupLinesProc) [] sampleRunner
        (URI sampleRepo) (Password sampleRepo) [''backup'', ''--json'', ''D:'']
        (backupLine plainLib))))
       = [(''backup:progress'', BackupData sampleSummary)]" by simp
  from 1 2 h hb show ?thesis by simp
qed

section \<open>Listing\<close>

lemma collectNodes_nodes_of: "collectNodes L ls = nodes_of L ls"
  by (induction ls) (auto simp: nodes_of_def node_of_def List.map_filter_simps split: sum.splits)

lemma nodes_of_append: "nodes_of L (xs @ ys) = nodes_of L xs @ nodes_of L ys"
  by (induction xs) (auto simp: nodes_of_def List.map_filter_simps split: option.splits)

lemma nodes_of_Cons:
  "nodes_of L (l # ls) = (case node_of L l of Some n \<Rightarrow> [n] | None \<Rightarrow> []) @ nodes_of L ls"
  by (simp add: nodes_of_def List.map_filter_simps split: option.splits)

text \<open>
  Claim C9. When the listing succeeds and its first line describes the snapshot (it is
  not tagged as a node), \<open>ListSnapshotContents\<close> returns the entries of the lines after
  it: the first line is left out; each later line tagged as a node gives exactly one
  entry, the record decoded from it (name, type, path, size and modification time), in
  the order of the lines; lines that do not decode are skipped and the operation still
  succeeds.
\<close>

theorem ListSnapshotContents_nodes:
  assumes "runner a = Some r"
    and "GetRepository (config a) repoID = Some repo"
    and "CombinedOutput os (Run_cmd os r (URI repo) (Password repo) [''ls'', ''--json'', snapshotID])
           = (out, ExitCode 0)"
    and "splitLines out = first # rest"
    and "node_of L first = None"
  shows "ListSnapshotContents L os a repoID snapshotID = Inr (nodes_of L rest)
       \<and> (\<forall>xs l ys. rest = xs @ l # ys \<longrightarrow>
            nodes_of L rest
              = nodes_of L xs @ (case node_of L l of Some n \<Rightarrow> [n] | None \<Rightarrow> []) @ nodes_of L ys)
       \<and> (\<forall>l n. node_of L l = Some n \<longrightarrow> UnmarshalFileNode L l = Inr n \<and> StructType n = ''node'')
       \<and> (\<forall>l e. UnmarshalFileNode L l = Inl e \<longrightarrow> node_of L l = None)"
proof -
  have "ListSnapshotContents L os a repoID snapshotID = Inr (nodes_of L (first # rest))"
    using assms(1-4) by (simp add: ListSnapshotContents_def Run_def collectNodes_nodes_of)
  also have "nodes_of L (first # rest) = nodes_of L rest"
    using assms(5) by (simp add: nodes_of_Cons)
  finally have 1: "ListSnapshotContents L os a repoID snapshotID = Inr (nodes_of L rest)" .
  have 2: "\<forall>xs l ys. rest = xs @ l # ys \<longrightarrow>
            nodes_of L rest
              = nodes_of L xs @ (case node_of L l of Some n \<Rightarrow> [n] | None \<Rightarrow> []) @ nodes_of L ys"
    by (auto simp: nodes_of_append nodes_of_Cons)
  have 3: "\<forall>l n. node_of L l = Some n \<longrightarrow> UnmarshalFileNode L l = Inr n \<and> StructType n = ''node''"
    by (auto simp: node_of_def split: if_splits sum.splits)
  have 4: "\<forall>l e. UnmarshalFileNode L l = Inl e \<longrightarrow> node_of L l = None"
    by (auto simp: node_of_def)
  from 1 2 3 4 show ?thesis by blast
qed

theorem ListSnapshotContents_nodes_witness:
  "runner sampleApp = Some sampleRunner
   \<and> GetRepository (config sampleApp) ''r1'' = Some sampleRepo
   \<and> CombinedOutput (outputOs sampleListing (ExitCode 0))
        (Run_cmd (outputOs sampleListing (ExitCode 0)) sampleRunner (URI sampleRepo)
           (Password sampleRepo) [''ls'', ''--json'', ''4f2a''])
       = (sampleListing, ExitCode 0)
   \<and> splitLines sampleListing
       = sampleSnapshotLine # [sampleNodeLine, [], ''warning: not json'', sampleNodeLine]
   \<and> node_of plainLib sampleSnapshotLine = None
   \<and> ListSnapshotContents plainLib (outputOs sampleListing (ExitCode 0)) sampleApp ''r1'' ''4f2a''
       = Inr [sampleNode, sampleNode]"
proof -
  have h1: "runner sampleApp = Some sampleRunner" by code_simp
  have h2: "GetRepository (config sampleApp) ''r1'' = Some sampleRepo" by code_simp
  have h3: "CombinedOutput (outputOs sampleListing (ExitCode 0))
        (Run_cmd (outputOs sampleListing (ExitCode 0)) sampleRunner (URI sampleRepo)
           (Password sampleRepo) [''ls'', ''--json'', ''4f2a''])
       = (sampleListing, ExitCode 0)" by (simp add: outputOs_def)
  have h4: "splitLines sampleListing
       = sampleSnapshotLine # [sampleNodeLine, [], ''warning: not json'', sampleNodeLine]"
    by code_simp
  have h5: "node_of plainLib sampleSnapshotLine = None" by code_simp
  have n: "nodes_of plainLib [sampleNodeLine, [], ''warning: not json'', sampleNodeLine]
             = [sampleNode, sampleNode]" by code_simp
  from ListSnapshotContents_nodes [OF h1 h2 h3 h4 h5] n
  show ?thesis using h1 h2 h3 h4 h5 by simp
qed

section \<open>Selective restore\<close>

text \<open>
  Claim C6. With the runner and the repository at hand, a restore to the original
  location whose first selected path has a leading segment that is not exactly one byte
  long emits the error event \<open>Could not determine drive letter from path\<close> and does
  nothing else: no subprocess is started and no directory is created.
\<close>

theorem no_drive_letter:
  assumes "runner a = Some r"
    and "GetRepository (config a) repoID = Some repo"
    and "length (leadingSegment first) \<noteq> 1"
  shows "RestoreSelected fuel L os a repoID snapshotID (first # others) targetPath True
           = (None, Some [EventsEmit ''restore:error''
                            (Message ''Could not determine drive letter from path'')])
       \<and> started [EventsEmit ''restore:error''
                            (Message ''Could not determine drive letter from path'')] = []
       \<and> created [EventsEmit ''restore:error''
                            (Message ''Could not determine drive letter from path'')] = []"
  using assms
  by (simp add: RestoreSelected_def restoreToOriginal_def extractDriveLetter_def Let_def)

theorem no_drive_letter_witness:
  "runner sampleApp = Some sampleRunner
   \<and> GetRepository (config sampleApp) ''r1'' = Some sampleRepo
   \<and> leadingSegment ''//nas/share/docs'' = [] \<and> length (leadingSegment ''//nas/share/docs'') \<noteq> 1
   \<and> length (leadingSegment (''server'' @ [CHR 0x5C] @ ''share'')) \<noteq> 1
   \<and> RestoreSelected 0 plainLib quietOs sampleApp ''r1'' ''4f2a'' [''//nas/share/docs''] [] True
       = (None, Some [EventsEmit ''restore:error''
                        (Message ''Could not determine drive letter from path'')])"
proof -
  have h1: "runner sampleApp = Some sampleRunner" by code_simp
  have h2: "GetRepository (config sampleApp) ''r1'' = Some sampleRepo" by code_simp
  have h3: "leadingSegment ''//nas/share/docs'' = []" by code_simp
  have h4: "length (leadingSegment ''//nas/share/docs'') \<noteq> 1" by code_simp
  have h5: "length (leadingSegment (''server'' @ [CHR 0x5C] @ ''share'')) \<noteq> 1" by code_simp
  from no_drive_letter [OF h1 h2 h4, of 0 plainLib quietOs "''4f2a''" "[]" "[]"]
  show ?thesis using h1 h2 h3 h4 h5 by simp
qed

text \<open>
  Claim C7, as amended. A call of \<open>RestoreSelected\<close> with no included path fails at once
  and starts no subprocess. In custom-target mode \<open>RestoreSelected\<close> starts the restore
  with the target directory it is given, also when that directory is the empty text;
  the requirement of a non-empty target directory is kept by its caller: \<open>startRestore\<close>
  calls \<open>RestoreSelected\<close> only with at least one path and, in custom mode, only with a
  non-empty target directory.
\<close>

theorem restore_requirements:
  "fst (RestoreSelected fuel L os a repoID snapshotID [] targetPath toOriginal)
     \<in> {Some ''restic not found'', Some ''repository not found'', Some ''no paths selected''}
   \<and> snd (RestoreSelected fuel L os a repoID snapshotID [] targetPath toOriginal) = Some []
   \<and> (runner a = Some r \<and> GetRepository (config a) repoID = Some repo
        \<and> pipe_error (run_proc os [] (RunWithProgress_cmd os r (URI repo) (Password repo)
              (restore_args snapshotID targetPath (first # others)))) = None
      \<longrightarrow> fst (RestoreSelected fuel L os a repoID snapshotID (first # others) targetPath False) = None
        \<and> (\<exists>t. snd (RestoreSelected fuel L os a repoID snapshotID (first # others) targetPath False)
                  = Some t
               \<and> started t = [RunWithProgress_cmd os r (URI repo) (Password repo)
                     (restore_args snapshotID targetPath (first # others))]))
   \<and> (startRestore selectedRepo selectedSnap checked target mode
         = CallRestoreSelected repoID' snapshotID' paths target' toOriginal'
      \<longrightarrow> paths \<noteq> [] \<and> (\<not> toOriginal' \<longrightarrow> target' \<noteq> []))"
proof -
  have 1: "fst (RestoreSelected fuel L os a repoID snapshotID [] targetPath toOriginal)
     \<in> {Some ''restic not found'', Some ''repository not found'', Some ''no paths selected''}
     \<and> snd (RestoreSelected fuel L os a repoID snapshotID [] targetPath toOriginal) = Some []"
    by (simp add: RestoreSelected_def split: option.splits)
  have 2: "runner a = Some r \<and> GetRepository (config a) repoID = Some repo
        \<and> pipe_error (run_proc os [] (RunWithProgress_cmd os r (URI repo) (Password repo)
              (restore_args snapshotID targetPath (first # others)))) = None
      \<longrightarrow> fst (RestoreSelected fuel L os a repoID snapshotID (first # others) targetPath False) = None
        \<and> (\<exists>t. snd (RestoreSelected fuel L os a repoID snapshotID (first # others) targetPath False)
                  = Some t
               \<and> started t = [RunWithProgress_cmd os r (URI repo) (Password repo)
                     (restore_args snapshotID targetPath (first # others))])"
  proof (intro impI, elim conjE)
    assume a: "runner a = Some r" "GetRepository (config a) repoID = Some repo"
      and p: "pipe_error (run_proc os [] (RunWithProgress_cmd os r (URI repo) (Password repo)
              (restore_args snapshotID targetPath (first # others)))) = None"
    obtain r' t e where rw: "RunWithProgress L os [] r (URI repo) (Password repo)
        (restore_args snapshotID targetPath (first # others)) (restoreLine L) = (r', t, e)"
      by (metis prod_cases3)
    from RunWithProgress_started [of L os "[]" r "URI repo" "Password repo"
        "restore_args snapshotID targetPath (first # others)"] rw p
    have st: "started t = [RunWithProgress_cmd os r (URI repo) (Password repo)
                     (restore_args snapshotID targetPath (first # others))]" by simp
    show "fst (RestoreSelected fuel L os a repoID snapshotID (first # others) targetPath False) = None
        \<and> (\<exists>t. snd (RestoreSelected fuel L os a repoID snapshotID (first # others) targetPath False)
                  = Some t
               \<and> started t = [RunWithProgress_cmd os r (URI repo) (Password repo)
                     (restore_args snapshotID targetPath (first # others))])"
      using a rw st by (cases e) (simp_all add: RestoreSelected_def started_append)
  qed
  have 3: "startRestore selectedRepo selectedSnap checked target mode
         = CallRestoreSelected repoID' snapshotID' paths target' toOriginal'
      \<longrightarrow> paths \<noteq> [] \<and> (\<not> toOriginal' \<longrightarrow> target' \<noteq> [])"
    by (cases mode) (auto simp: startRestore_def split: if_splits)
  from 1 2 3 show ?thesis by blast
qed

text \<open>A call in custom mode with the empty target directory starts \<open>restic restore\<close> with
  \<open>--target ""\<close>.\<close>

theorem empty_target_counterexample:
  "RestoreSelected 0 plainLib quietOs sampleApp ''r1'' ''4f2a'' [''/G/docs''] [] False
     = (None,
        Some [Start \<lparr>cmd_name = ''restic.exe'',
                     cmd_args = [''restore'', ''4f2a'', ''--target'', [], ''--json'',
                                 ''--include'', ''/G/docs''],
                     cmd_env = Environ quietOs @ [''RESTIC_REPOSITORY=sftp:host:/srv/repo'',
                                 ''RESTIC_PASSWORD=hunter2'']\<rparr> None,
              EventsEmit ''restore:complete'' NoData])"
  by code_simp

theorem restore_requirements_witness:
  "runner sampleApp = Some sampleRunner \<and> GetRepository (config sampleApp) ''r1'' = Some sampleRepo
   \<and> pipe_error (run_proc quietOs [] (RunWithProgress_cmd quietOs sampleRunner (URI sampleRepo)
         (Password sampleRepo) (restore_args ''4f2a'' ''D:'' [''/G/docs'']))) = None
   \<and> fst (RestoreSelected 0 plainLib quietOs sampleApp ''r1'' ''4f2a'' [''/G/docs''] ''D:'' False) = None
   \<and> (\<exists>t. snd (RestoreSelected 0 plainLib quietOs sampleApp ''r1'' ''4f2a'' [''/G/docs''] ''D:'' False)
              = Some t
          \<and> started t = [RunWithProgress_cmd quietOs sampleRunner (URI sampleRepo)
                (Password sampleRepo) (restore_args ''4f2a'' ''D:'' [''/G/docs''])])
   \<and> startRestore ''r1'' ''4f2a'' [''/G/docs''] ''D:'' Custom
       = CallRestoreSelected ''r1'' ''4f2a'' [''/G/docs''] ''D:'' False
   \<and> RestoreSelected 0 plainLib quietOs sampleApp ''r1'' ''4f2a'' [] ''D:'' False
       = (Some ''no paths selected'', Some [])"
proof -
  have h: "runner sampleApp = Some sampleRunner \<and> GetRepository (config sampleApp) ''r1'' = Some sampleRepo
   \<and> pipe_error (run_proc quietOs [] (RunWithProgress_cmd quietOs sampleRunner (URI sampleRepo)
         (Password sampleRepo) (restore_args ''4f2a'' ''D:'' [''/G/docs'']))) = None"
    by code_simp
  have u: "startRestore ''r1'' ''4f2a'' [''/G/docs''] ''D:'' Custom
       = CallRestoreSelected ''r1'' ''4f2a'' [''/G/docs''] ''D:'' False"
    by code_simp
  have e: "RestoreSelected 0 plainLib quietOs sampleApp ''r1'' ''4f2a'' [] ''D:'' False
       = (Some ''no paths selected'', Some [])"
    by code_simp
  from restore_requirements [of 0 plainLib quietOs sampleApp "''r1''" "''4f2a''" "''D:''" False
      sampleRunner sampleRepo "''/G/docs''" "[]"] h u e
  show ?thesis by simp
qed

text \<open>
  Claim C10. In a restore to the original location whose staging directory was created
  and whose restore subprocess ended without error, when reading the subdirectory of the
  staging directory named after the drive letter fails because it does not exist,
  \<open>moveContents\<close> returns no error and the operation emits \<open>restore:complete\<close> (and
  then removes the staging directory); no error event is emitted.
\<close>

theorem missing_source_is_success:
  assumes "runner a = Some r"
    and "GetRepository (config a) repoID = Some repo"
    and "extractDriveLetter L first = driveLetter" and "driveLetter \<noteq> []"
    and "tempDir = tempDirName driveLetter (NewUUID os)"
    and "os_MkdirAll os [] tempDir 493 = None"
    and "RunWithProgress L os [FS (MkdirAll tempDir 493 None)] r (URI repo) (Password repo)
           (restore_args snapshotID tempDir (first # others)) (restoreLine L) = (r', t, None)"
    and "os_ReadDir os (FS (MkdirAll tempDir 493 None) # t) (Join L tempDir driveLetter)
           = (entries, Some (NotExist msg))"
  shows "moveContents fuel L os (FS (MkdirAll tempDir 493 None) # t) (Join L tempDir driveLetter)
             (driveLetter @ '':'' @ [CHR 0x5C])
           = Some ([ReadDir (Join L tempDir driveLetter) entries (Some (NotExist msg))], None)
       \<and> RestoreSelected fuel L os a repoID snapshotID (first # others) targetPath True
           = (None,
              Some (FS (MkdirAll tempDir 493 None) # t
                    @ [FS (ReadDir (Join L tempDir driveLetter) entries (Some (NotExist msg))),
                       EventsEmit ''restore:complete'' NoData,
                       FS (RemoveAll tempDir)]))"
  using assms
  by (simp add: RestoreSelected_def restoreToOriginal_def moveContents_def Let_def)

theorem missing_source_is_success_witness:
  "runner sampleApp = Some sampleRunner
   \<and> GetRepository (config sampleApp) ''r1'' = Some sampleRepo
   \<and> extractDriveLetter plainLib ''/G/docs/report.pdf'' = ''G'' \<and> ''G'' \<noteq> []
   \<and> sampleTempDir = tempDirName ''G'' (NewUUID emptyRestoreOs)
   \<and> os_MkdirAll emptyRestoreOs [] sampleTempDir 493 = None
   \<and> RunWithProgress plainLib emptyRestoreOs [FS (MkdirAll sampleTempDir 493 None)] sampleRunner
         (URI sampleRepo) (Password sampleRepo)
         (restore_args ''4f2a'' sampleTempDir [''/G/docs/report.pdf'', ''/G/docs/notes.txt''])
         (restoreLine plainLib)
       = (sampleRunner, [Start sampleRestoreCmd None], None)
   \<and> os_ReadDir emptyRestoreOs [FS (MkdirAll sampleTempDir 493 None), Start sampleRestoreCmd None]
         (Join plainLib sampleTempDir ''G'')
       = ([], Some (NotExist ''The system cannot find the file specified.''))
   \<and> RestoreSelected 0 plainLib emptyRestoreOs sampleApp ''r1'' ''4f2a''
         [''/G/docs/report.pdf'', ''/G/docs/notes.txt''] [] True
       = (None,
          Some [FS (MkdirAll sampleTempDir 493 None), Start sampleRestoreCmd None,
                FS (ReadDir (sampleTempDir @ [CHR 0x5C] @ ''G'') []
                      (Some (NotExist ''The system cannot find the file specified.''))),
                EventsEmit ''restore:complete'' NoData,
                FS (RemoveAll sampleTempDir)])"
proof -
  have h1: "runner sampleApp = Some sampleRunner" by code_simp
  have h2: "GetRepository (config sampleApp) ''r1'' = Some sampleRepo" by code_simp
  have h3: "extractDriveLetter plainLib ''/G/docs/report.pdf'' = ''G''" by code_simp
  have h4: "''G'' \<noteq> []" by simp
  have h5: "sampleTempDir = tempDirName ''G'' (NewUUID emptyRestoreOs)" by code_simp
  have h6: "os_MkdirAll emptyRestoreOs [] sampleTempDir 493 = None" by code_simp
  have h7: "RunWithProgress plainLib emptyRestoreOs [FS (MkdirAll sampleTempDir 493 None)] sampleRunner
         (URI sampleRepo) (Password sampleRepo)
         (restore_args ''4f2a'' sampleTempDir [''/G/docs/report.pdf'', ''/G/docs/notes.txt''])
         (restoreLine plainLib)
       = (sampleRunner, [Start sampleRestoreCmd None], None)" by code_simp
  have h8: "os_ReadDir emptyRestoreOs [FS (MkdirAll sampleTempDir 493 None), Start sampleRestoreCmd None]
         (Join plainLib sampleTempDir ''G'')
       = ([], Some (NotExist ''The system cannot find the file specified.''))" by code_simp
  have j: "Join plainLib sampleTempDir ''G'' = sampleTempDir @ [CHR 0x5C] @ ''G''" by code_simp
  from missing_source_is_success [OF h1 h2 h3 h4 h5 h6 h7 h8, of 0 "[]"] j
  show ?thesis using h1 h2 h3 h5 h6 h7 h8 by simp
qed

section \<open>Restore to the original location\<close>















subsection \<open>The move phase returns\<close>






subsection \<open>The effects of a run that returned\<close>






end
